theory Spec2Isabelle
  imports Main "HOL-Library.Sublist" "HOL-Library.Char_ord" "HOL-Library.List_Lexorder"
begin

section \<open>Strings\<close>

text \<open>
  Go strings are byte sequences; they are modelled as \<^typ>\<open>string\<close>, one \<^typ>\<open>char\<close> per byte.
\<close>

type_synonym path = string
type_synonym bytes = string

text \<open>
  \<^verbatim>\<open>strings.Replace(s, old, new, -1)\<close>: every non-overlapping instance of \<open>old\<close>, found from
  left to right, is replaced by \<open>new\<close>. With an empty \<open>old\<close> the replacement is inserted at the
  beginning and after every character (the source only passes the three non-empty placeholders).
\<close>

function strings_Replace :: "string \<Rightarrow> string \<Rightarrow> string \<Rightarrow> string" where
  "strings_Replace s old new =
     (if old = [] then new @ concat (map (\<lambda>c. c # new) s)
      else (case s of
              [] \<Rightarrow> []
            | c # cs \<Rightarrow>
                if prefix old s then new @ strings_Replace (drop (length old) s) old new
                else c # strings_Replace cs old new))"
  by pat_completeness auto
termination
  by (relation "measure (\<lambda>(s, old, new). length s)") auto

declare strings_Replace.simps [simp del]


text \<open>\<^verbatim>\<open>strings.HasSuffix(s, suffix)\<close>.\<close>

definition strings_HasSuffix :: "string \<Rightarrow> string \<Rightarrow> bool" where
  "strings_HasSuffix s suff = suffix suff s"

text \<open>
  \<^verbatim>\<open>strings.TrimSpace(s)\<close> removes every leading and trailing white-space character as defined
  by Unicode: the six ASCII ones and, in their UTF-8 encoding, U+0085, U+00A0, U+1680,
  U+2000 to U+200A, U+2028, U+2029, U+202F, U+205F and U+3000.
\<close>

definition space_runes :: "string list" where
  "space_runes =
     [[CHR 0x09], [CHR 0x0A], [CHR 0x0B], [CHR 0x0C], [CHR 0x0D], [CHR 0x20],
      [CHR 0xC2, CHR 0x85], [CHR 0xC2, CHR 0xA0], [CHR 0xE1, CHR 0x9A, CHR 0x80],
      [CHR 0xE2, CHR 0x80, CHR 0x80], [CHR 0xE2, CHR 0x80, CHR 0x81], [CHR 0xE2, CHR 0x80, CHR 0x82],
      [CHR 0xE2, CHR 0x80, CHR 0x83], [CHR 0xE2, CHR 0x80, CHR 0x84], [CHR 0xE2, CHR 0x80, CHR 0x85],
      [CHR 0xE2, CHR 0x80, CHR 0x86], [CHR 0xE2, CHR 0x80, CHR 0x87], [CHR 0xE2, CHR 0x80, CHR 0x88],
      [CHR 0xE2, CHR 0x80, CHR 0x89], [CHR 0xE2, CHR 0x80, CHR 0x8A], [CHR 0xE2, CHR 0x80, CHR 0xA8],
      [CHR 0xE2, CHR 0x80, CHR 0xA9], [CHR 0xE2, CHR 0x80, CHR 0xAF], [CHR 0xE2, CHR 0x81, CHR 0x9F],
      [CHR 0xE3, CHR 0x80, CHR 0x80]]"

fun leading_space :: "string list \<Rightarrow> string \<Rightarrow> nat" where
  "leading_space [] s = 0"
| "leading_space (r # rs) s = (if prefix r s then length r else leading_space rs s)"

function trim_left :: "string \<Rightarrow> string" where
  "trim_left s =
     (if leading_space space_runes s = 0 then s
      else trim_left (drop (leading_space space_runes s) s))"
  by pat_completeness auto
termination
proof (relation "measure length")
  show "wf (measure length)" by simp
next
  fix s :: string
  assume n: "leading_space space_runes s \<noteq> 0"
  have le: "leading_space rs s \<noteq> 0 \<Longrightarrow> s \<noteq> []" for rs
    by (induction rs) (auto split: if_splits)
  from le [OF n] n show "(drop (leading_space space_runes s) s, s) \<in> measure length"
    by (cases s) simp_all
qed

declare trim_left.simps [simp del]

text \<open>
  A character sequence ends with the encoding of a white-space character exactly when its
  reversal starts with the reversed encoding, so the right end is trimmed on the reversal.
\<close>

function trim_left_rev :: "string \<Rightarrow> string" where
  "trim_left_rev s =
     (if leading_space (map rev space_runes) s = 0 then s
      else trim_left_rev (drop (leading_space (map rev space_runes) s) s))"
  by pat_completeness auto
termination
proof (relation "measure length")
  show "wf (measure length)" by simp
next
  fix s :: string
  assume n: "leading_space (map rev space_runes) s \<noteq> 0"
  have le: "leading_space rs s \<noteq> 0 \<Longrightarrow> s \<noteq> []" for rs
    by (induction rs) (auto split: if_splits)
  from le [OF n] n show "(drop (leading_space (map rev space_runes) s) s, s) \<in> measure length"
    by (cases s) simp_all
qed

declare trim_left_rev.simps [simp del]

definition strings_TrimSpace :: "string \<Rightarrow> string" where
  "strings_TrimSpace s = rev (trim_left_rev (rev (trim_left s)))"

section \<open>Configuration and errors\<close>

text \<open>The struct \<^verbatim>\<open>Updater\<close>.\<close>

record Updater =
  CurrentVersion :: string
  S3VersionKey :: string
  ChecksumKey :: string
  S3Bucket :: string
  S3ReleaseKey :: string
  Verbose :: bool

text \<open>
  The error values of the package. The first eight are the ones the source builds with
  \<^verbatim>\<open>fmt.Errorf\<close>; \<open>SysError\<close> stands for an error value handed back by an imported package
  (\<^verbatim>\<open>net/http\<close>, \<^verbatim>\<open>os\<close>, \<^verbatim>\<open>io\<close>, \<^verbatim>\<open>path/filepath\<close>, \<^verbatim>\<open>compress/gzip\<close>, \<^verbatim>\<open>archive/tar\<close>,
  \<^verbatim>\<open>syscall\<close>), which the source passes on unchanged; it carries the message of that error.
\<close>

datatype error =
    NoVersionSet
  | NoBucketSet
  | NoReleaseKeySet
  | NoVersionKeySet
  | InvalidLocalVersion
  | InvalidRemoteVersion string
  | UnknownFileType
  | ChecksumMismatch string
  | SysError string

fun Error :: "error \<Rightarrow> string" where
  "Error NoVersionSet = ''no version set''"
| "Error NoBucketSet = ''no bucket set''"
| "Error NoReleaseKeySet = ''no s3ReleaseKey set''"
| "Error NoVersionKeySet = ''no s3VersionKey set''"
| "Error InvalidLocalVersion = ''invalid local version''"
| "Error (InvalidRemoteVersion v) = ''remote version is invalid: '' @ v"
| "Error UnknownFileType = ''gunzipping file: unknown file type''"
| "Error (ChecksumMismatch v) = v @ '' checksum mismatch''"
| "Error (SysError m) = m"

definition validate :: "Updater \<Rightarrow> error option" where
  "validate u =
     (if CurrentVersion u = [] then Some NoVersionSet
      else if S3Bucket u = [] then Some NoBucketSet
      else if S3ReleaseKey u = [] then Some NoReleaseKeySet
      else if S3VersionKey u = [] then Some NoVersionKeySet
      else None)"

section \<open>The world outside the package\<close>

text \<open>
  A file has a content and permission bits. The file system maps paths to files.
\<close>

record file_data =
  content :: bytes
  perm :: nat

type_synonym filesystem = "path \<rightharpoonup> file_data"

text \<open>
  An HTTP response: the bytes its body delivers, when reading the body breaks off after
  them the error of the read, and the field \<^verbatim>\<open>ContentLength\<close> (\<open>-1\<close> when the length is unknown).
\<close>

record response =
  Body :: bytes
  Body_err :: "string option"
  ContentLength :: int

text \<open>
  The \<^verbatim>\<open>ioprogress.Reader\<close> of lines 142-150: the response whose body it reads and the total
  that it passes to its draw function.
\<close>

record progress_reader =
  Reader :: response
  Size :: int

text \<open>
  Everything the source takes from outside itself is a field of \<open>env\<close>:
  the constants \<^verbatim>\<open>runtime.GOOS\<close> and \<^verbatim>\<open>runtime.GOARCH\<close>; the functions of imported packages whose
  code is not part of the repository (\<^verbatim>\<open>semver.IsValid\<close>, \<^verbatim>\<open>semver.Compare\<close>, the MD5 digest in
  hexadecimal, the gzip and tar readers); and the answers of the network and of the operating
  system. An answer is a value or, on the left, the message of an error.
  \<open>http_answer n url\<close> is the answer to the request that is the \<open>n\<close>-th of the run.
  \<open>fault n\<close> is the error, if any, that the operating system returns for the \<open>n\<close>-th file-system
  or process call of the run, and \<open>short_write n\<close> the number of bytes that reach the file when
  that call is a write and fails or is cut short; so every pattern of failing and succeeding
  calls is some \<open>env\<close>. \<open>tar_answer\<close> gives the type flag of the first entry and the outcome of
  reading the entry to its end.
  \<open>draw_panics progress total\<close> tells whether the draw function of lines 146-149, which is built
  from functions of the imported package \<^verbatim>\<open>ioprogress\<close>, panics when it is called with these two
  numbers; what it prints on the terminal is not modelled. The progress reader calls it before
  the first read, when the body ends, and after a read that finds the draw interval of 500 ms
  elapsed: \<open>redrawn n\<close> lists the numbers of bytes read at which the last happens during the copy
  that is the \<open>n\<close>-th call of the run.
\<close>

record env =
  GOOS :: string
  GOARCH :: string
  semver_IsValid :: "string \<Rightarrow> bool"
  semver_Compare :: "string \<Rightarrow> string \<Rightarrow> int"
  md5_hex :: "bytes \<Rightarrow> string"
  gzip_answer :: "bytes \<Rightarrow> string + bytes"
  tar_answer :: "bytes \<Rightarrow> string + (char \<times> (string + bytes))"
  http_answer :: "nat \<Rightarrow> string \<Rightarrow> string + response"
  exe_answer :: "string + path"
  symlinks_answer :: "path \<Rightarrow> string + path"
  fault :: "nat \<Rightarrow> string option"
  short_write :: "nat \<Rightarrow> nat"
  draw_panics :: "int \<Rightarrow> int \<Rightarrow> bool"
  redrawn :: "nat \<Rightarrow> nat list"

text \<open>
  The calls that change the file system. \<open>fs_log\<close> keeps, for each such call of the run, the
  call, whether it succeeded and the file system after it.
\<close>

datatype fs_op =
    Rename path path
  | OpenFile path
  | Write path
  | Remove path
  | Chmod path

record world =
  environ :: "string \<Rightarrow> string"
  args :: "string list"
  fs :: filesystem
  syscalls :: nat
  requests :: "string list"
  stdout :: "string list"
  fs_log :: "(fs_op \<times> bool \<times> filesystem) list"

text \<open>How a call of the package ends: it returns, the process exits, the process image is
  replaced (\<^verbatim>\<open>syscall.Exec\<close> with the path, the arguments and the unchanged environment), or
  a panic that nothing recovers ends the process.\<close>

datatype outcome =
    Return "error option"
  | Exit int
  | Exec path "string list"
  | Panic

subsection \<open>Output and network\<close>

definition fmt_Print :: "string \<Rightarrow> world \<Rightarrow> world" where
  "fmt_Print s w = w\<lparr>stdout := stdout w @ [s]\<rparr>"

definition newline :: string where
  "newline = [CHR 0x0A]"

definition sys :: "string + 'a \<Rightarrow> error + 'a" where
  "sys a = (case a of Inl m \<Rightarrow> Inl (SysError m) | Inr x \<Rightarrow> Inr x)"

definition http_Get :: "env \<Rightarrow> string \<Rightarrow> world \<Rightarrow> (error + response) \<times> world" where
  "http_Get E url w =
     (sys (http_answer E (length (requests w)) url), w\<lparr>requests := requests w @ [url]\<rparr>)"

definition ioutil_ReadAll :: "response \<Rightarrow> error + bytes" where
  "ioutil_ReadAll r = (case Body_err r of Some m \<Rightarrow> Inl (SysError m) | None \<Rightarrow> Inr (Body r))"

definition os_Executable :: "env \<Rightarrow> error + path" where
  "os_Executable E = sys (exe_answer E)"

definition filepath_EvalSymlinks :: "env \<Rightarrow> path \<Rightarrow> error + path" where
  "filepath_EvalSymlinks E p = sys (symlinks_answer E p)"

definition gzip_NewReader :: "env \<Rightarrow> bytes \<Rightarrow> error + bytes" where
  "gzip_NewReader E data = sys (gzip_answer E data)"

definition tar_Next :: "env \<Rightarrow> bytes \<Rightarrow> error + (char \<times> (error + bytes))" where
  "tar_Next E data =
     (case tar_answer E data of
        Inl m \<Rightarrow> Inl (SysError m)
      | Inr (typeflag, entry) \<Rightarrow> Inr (typeflag, sys entry))"

subsection \<open>File-system and process calls\<close>

text \<open>
  Each call consumes one index of \<open>fault\<close>. A call that the operating system fails changes
  nothing, except a failing write, which leaves the bytes written before the failure.
\<close>

definition tick :: "world \<Rightarrow> world" where
  "tick w = w\<lparr>syscalls := Suc (syscalls w)\<rparr>"

definition record_op :: "fs_op \<Rightarrow> bool \<Rightarrow> world \<Rightarrow> world" where
  "record_op call ok w = w\<lparr>fs_log := fs_log w @ [(call, ok, fs w)]\<rparr>"

definition ENOENT :: error where
  "ENOENT = SysError ''no such file or directory''"

definition os_Stat :: "env \<Rightarrow> path \<Rightarrow> world \<Rightarrow> error option \<times> world" where
  "os_Stat E name w =
     (case fault E (syscalls w) of
        Some m \<Rightarrow> (Some (SysError m), tick w)
      | None \<Rightarrow> (if fs w name = None then (Some ENOENT, tick w) else (None, tick w)))"

definition os_Rename :: "env \<Rightarrow> path \<Rightarrow> path \<Rightarrow> world \<Rightarrow> error option \<times> world" where
  "os_Rename E oldpath newpath w =
     (case fault E (syscalls w) of
        Some m \<Rightarrow> (Some (SysError m), record_op (Rename oldpath newpath) False (tick w))
      | None \<Rightarrow>
          (case fs w oldpath of
             None \<Rightarrow> (Some ENOENT, record_op (Rename oldpath newpath) False (tick w))
           | Some f \<Rightarrow>
               (None, record_op (Rename oldpath newpath) True
                  (tick (if oldpath = newpath then w
                         else w\<lparr>fs := (fs w)(newpath \<mapsto> f, oldpath := None)\<rparr>)))))"

text \<open>\<^verbatim>\<open>os.OpenFile(name, os.O_RDWR|os.O_CREATE|os.O_TRUNC, mode)\<close>: an existing file is
  emptied and keeps its permission bits, a missing one is created empty.\<close>

definition os_OpenFile :: "env \<Rightarrow> path \<Rightarrow> nat \<Rightarrow> world \<Rightarrow> error option \<times> world" where
  "os_OpenFile E name mode w =
     (case fault E (syscalls w) of
        Some m \<Rightarrow> (Some (SysError m), record_op (OpenFile name) False (tick w))
      | None \<Rightarrow>
          (None, record_op (OpenFile name) True
             (tick (w\<lparr>fs := (fs w)(name \<mapsto>
                (case fs w name of
                   None \<Rightarrow> \<lparr>content = [], perm = mode\<rparr>
                 | Some f \<Rightarrow> f\<lparr>content := []\<rparr>))\<rparr>))))"

text \<open>\<^verbatim>\<open>os.Create(name)\<close> is \<^verbatim>\<open>OpenFile(name, O_RDWR|O_CREATE|O_TRUNC, 0666)\<close>.\<close>

definition os_Create :: "env \<Rightarrow> path \<Rightarrow> world \<Rightarrow> error option \<times> world" where
  "os_Create E name w = os_OpenFile E name 438 w"

definition os_Open :: "env \<Rightarrow> path \<Rightarrow> world \<Rightarrow> error option \<times> world" where
  "os_Open E name w =
     (case fault E (syscalls w) of
        Some m \<Rightarrow> (Some (SysError m), tick w)
      | None \<Rightarrow> (if fs w name = None then (Some ENOENT, tick w) else (None, tick w)))"

definition set_content :: "path \<Rightarrow> bytes \<Rightarrow> world \<Rightarrow> world" where
  "set_content name data w =
     (case fs w name of
        None \<Rightarrow> w
      | Some f \<Rightarrow> w\<lparr>fs := (fs w)(name \<mapsto> f\<lparr>content := data\<rparr>)\<rparr>)"

text \<open>Writing \<open>data\<close> to the open, just emptied file at \<open>name\<close> (\<^verbatim>\<open>File.Write\<close>).\<close>

definition file_Write :: "env \<Rightarrow> path \<Rightarrow> bytes \<Rightarrow> world \<Rightarrow> error option \<times> world" where
  "file_Write E name data w =
     (case fault E (syscalls w) of
        Some m \<Rightarrow>
          (Some (SysError m), record_op (Write name) False
                     (tick (set_content name (take (short_write E (syscalls w)) data) w)))
      | None \<Rightarrow> (None, record_op (Write name) True (tick (set_content name data w))))"

text \<open>
  \<^verbatim>\<open>io.Copy(f, progressR)\<close> into the open file at \<open>name\<close>. Every read goes through the progress
  reader, which calls the draw function with the number of bytes read so far and \<open>Size\<close>:
  with \<open>0\<close> before the first read, at the counts of \<open>redrawn\<close> in between, and with the
  length of the body when the body ends. A panic of the draw function ends the copy, with no
  more in the file than the bytes read before it. Otherwise the bytes the body delivers are
  written, and the copy fails when a write fails or when reading the body breaks off with an
  error; the draw at the end takes place only when neither happens.
\<close>

datatype copied = Copied | CopyFailed error | Panicked

definition draws :: "env \<Rightarrow> nat \<Rightarrow> nat \<Rightarrow> nat list" where
  "draws E n len = 0 # filter (\<lambda>p. 0 < p \<and> p \<le> len) (redrawn E n)"

definition io_Copy_file :: "env \<Rightarrow> path \<Rightarrow> progress_reader \<Rightarrow> world \<Rightarrow> copied \<times> world" where
  "io_Copy_file E name r w =
     (let n = syscalls w;
          data = Body (Reader r);
          cut = (\<lambda>p. record_op (Write name) False
                       (tick (set_content name (take (min p (short_write E n)) data) w)))
      in
      case find (\<lambda>p. draw_panics E (int p) (Size r)) (draws E n (length data)) of
        Some p \<Rightarrow> (Panicked, cut p)
      | None \<Rightarrow>
          (case file_Write E name data w of
             (Some e, w') \<Rightarrow> (CopyFailed e, w')
           | (None, w') \<Rightarrow>
               (case Body_err (Reader r) of
                  Some m \<Rightarrow> (CopyFailed (SysError m), w')
                | None \<Rightarrow>
                    if draw_panics E (int (length data)) (Size r)
                    then (Panicked, cut (length data))
                    else (Copied, w'))))"

text \<open>\<^verbatim>\<open>io.Copy(h, f)\<close> into the MD5 hash followed by \<^verbatim>\<open>hex.EncodeToString(h.Sum(nil))\<close>:
  reading the file at \<open>name\<close> to its end and digesting what was read.\<close>

definition io_Copy_hash :: "env \<Rightarrow> path \<Rightarrow> world \<Rightarrow> (error + string) \<times> world" where
  "io_Copy_hash E name w =
     (case fault E (syscalls w) of
        Some m \<Rightarrow> (Inl (SysError m), tick w)
      | None \<Rightarrow> (Inr (md5_hex E (case fs w name of None \<Rightarrow> [] | Some f \<Rightarrow> content f)), tick w))"

definition os_Chmod :: "env \<Rightarrow> path \<Rightarrow> nat \<Rightarrow> world \<Rightarrow> error option \<times> world" where
  "os_Chmod E name mode w =
     (case fault E (syscalls w) of
        Some m \<Rightarrow> (Some (SysError m), record_op (Chmod name) False (tick w))
      | None \<Rightarrow>
          (case fs w name of
             None \<Rightarrow> (Some ENOENT, record_op (Chmod name) False (tick w))
           | Some f \<Rightarrow>
               (None, record_op (Chmod name) True
                  (tick (w\<lparr>fs := (fs w)(name \<mapsto> f\<lparr>perm := mode\<rparr>)\<rparr>)))))"

definition os_Remove :: "env \<Rightarrow> path \<Rightarrow> world \<Rightarrow> error option \<times> world" where
  "os_Remove E name w =
     (case fault E (syscalls w) of
        Some m \<Rightarrow> (Some (SysError m), record_op (Remove name) False (tick w))
      | None \<Rightarrow>
          (case fs w name of
             None \<Rightarrow> (Some ENOENT, record_op (Remove name) False (tick w))
           | Some f \<Rightarrow>
               (None, record_op (Remove name) True (tick (w\<lparr>fs := (fs w)(name := None)\<rparr>)))))"

text \<open>\<^verbatim>\<open>syscall.Exec(argv0, argv, envv)\<close> returns only when it fails.\<close>

definition syscall_Exec :: "env \<Rightarrow> path \<Rightarrow> world \<Rightarrow> outcome \<times> world" where
  "syscall_Exec E argv0 w =
     (case fault E (syscalls w) of
        Some m \<Rightarrow> (Return (Some (SysError m)), tick w)
      | None \<Rightarrow>
          (if fs w argv0 = None then (Return (Some ENOENT), tick w)
           else (Exec argv0 (args w), tick w)))"

section \<open>The package\<close>

text \<open>\<^verbatim>\<open>generateURL\<close>, with the two constants of \<^verbatim>\<open>runtime\<close> as arguments.\<close>

definition generateURL :: "string \<Rightarrow> string \<Rightarrow> string \<Rightarrow> string \<Rightarrow> string \<Rightarrow> string" where
  "generateURL goos goarch bucket pathTemplate version =
     (let p = strings_Replace pathTemplate ''{{VERSION}}'' version;
          p = strings_Replace p ''{{ARCH}}'' goarch;
          p = strings_Replace p ''{{OS}}'' goos
      in ''https://'' @ bucket @ ''.s3.amazonaws.com/'' @ p)"

definition fetchRemoteVersion :: "env \<Rightarrow> string \<Rightarrow> world \<Rightarrow> (error + string) \<times> world" where
  "fetchRemoteVersion E bucket w =
     (case http_Get E (''https://'' @ bucket @ ''.s3.amazonaws.com/VERSION'') w of
        (Inl err, w1) \<Rightarrow> (Inl err, w1)
      | (Inr resp, w1) \<Rightarrow>
          (case ioutil_ReadAll resp of
             Inl err \<Rightarrow> (Inl err, w1)
           | Inr body \<Rightarrow>
               (let remoteVersion = strings_TrimSpace body
                in if semver_IsValid E remoteVersion = False
                   then (Inl (InvalidRemoteVersion remoteVersion), w1)
                   else (Inr remoteVersion, w1))))"

definition tar_TypeReg :: char where
  "tar_TypeReg = CHR ''0''"

definition untgzFile :: "env \<Rightarrow> path \<Rightarrow> world \<Rightarrow> error option \<times> world" where
  "untgzFile E filename w =
     (case os_Open E filename w of
        (Some err, w1) \<Rightarrow> (Some err, w1)
      | (None, w1) \<Rightarrow>
          (case gzip_NewReader E (case fs w1 filename of None \<Rightarrow> [] | Some f \<Rightarrow> content f) of
             Inl err \<Rightarrow> (Some err, w1)
           | Inr r \<Rightarrow>
               (case tar_Next E r of
                  Inl err \<Rightarrow> (Some err, w1)
                | Inr (typeflag, entry) \<Rightarrow>
                    if typeflag \<noteq> tar_TypeReg then (Some UnknownFileType, w1)
                    else (case entry of
                            Inl err \<Rightarrow> (Some err, w1)
                          | Inr data \<Rightarrow>
                              (let w2 = snd (os_Remove E filename w1)
                               in case os_Create E filename w2 of
                                    (Some err, w3) \<Rightarrow> (Some err, w3)
                                  | (None, w3) \<Rightarrow> file_Write E filename data w3)))))"

text \<open>
  \<^verbatim>\<open>downloadUpdate\<close>. The deferred \<^verbatim>\<open>Close\<close> calls have no effect on the modelled state. The
  result of every \<^verbatim>\<open>os.Rename\<close> and of \<^verbatim>\<open>os.Remove\<close> is discarded, as in the source. Nothing
  recovers a panic of the copy through the progress reader, so no statement after line 177
  runs then.
\<close>

definition downloadUpdate :: "env \<Rightarrow> string \<Rightarrow> string \<Rightarrow> string \<Rightarrow> world \<Rightarrow> outcome \<times> world" where
  "downloadUpdate E downloadURL checksumURL version w =
     (case http_Get E downloadURL w of
        (Inl err, w1) \<Rightarrow> (Return (Some err), w1)
      | (Inr resp, w1) \<Rightarrow>
     (case http_Get E checksumURL w1 of
        (Inl err, w2) \<Rightarrow> (Return (Some err), w2)
      | (Inr checksumResp, w2) \<Rightarrow>
     (case ioutil_ReadAll checksumResp of
        Inl err \<Rightarrow> (Return (Some err), w2)
      | Inr checksumRespBody \<Rightarrow>
     (let progressR = \<lparr>Reader = resp, Size = ContentLength resp\<rparr> in
     (case os_Executable E of
        Inl err \<Rightarrow> (Return (Some err), w2)
      | Inr currentExecutable \<Rightarrow>
     (case filepath_EvalSymlinks E currentExecutable of
        Inl err \<Rightarrow> (Return (Some err), w2)
      | Inr target \<Rightarrow>
     (case os_Stat E target w2 of
        (Some err, w3) \<Rightarrow> (Return None, w3)
      | (None, w3) \<Rightarrow>
     (let backup = target @ ''.bak'';
          w4 = snd (os_Rename E target backup w3)
      in
     (case os_OpenFile E target 493 w4 of
        (Some err, w5) \<Rightarrow> (Return (Some err), snd (os_Rename E backup target w5))
      | (None, w5) \<Rightarrow>
     (case io_Copy_file E target progressR w5 of
        (Panicked, w6) \<Rightarrow> (Panic, w6)
      | (CopyFailed err, w6) \<Rightarrow> (Return (Some err), snd (os_Rename E backup target w6))
      | (Copied, w6) \<Rightarrow>
     (case os_Open E target w6 of
        (Some err, w7) \<Rightarrow> (Return (Some err), w7)
      | (None, w7) \<Rightarrow>
     (case io_Copy_hash E target w7 of
        (Inl err, w8) \<Rightarrow> (Return (Some err), snd (os_Rename E backup target w8))
      | (Inr digest, w8) \<Rightarrow>
     (if checksumRespBody \<noteq> digest
      then (Return (Some (ChecksumMismatch version)), snd (os_Rename E backup target w8))
      else
     (case (if strings_HasSuffix downloadURL ''.tgz'' then untgzFile E target w8 else (None, w8)) of
        (Some err, w9) \<Rightarrow> (Return (Some err), snd (os_Rename E backup target w9))
      | (None, w9) \<Rightarrow>
     (case os_Chmod E target 493 w9 of
        (Some err, w10) \<Rightarrow> (Return (Some err), snd (os_Rename E backup target w10))
      | (None, w10) \<Rightarrow>
     (let w11 = snd (os_Remove E backup w10);
          w12 = fmt_Print (''successfully updated to '' @ version @ newline) w11
      in syscall_Exec E target w12))))))))))))))))"

text \<open>\<^verbatim>\<open>runAutoUpdate\<close>. \<^verbatim>\<open>os.Exit(0)\<close> follows every return of \<^verbatim>\<open>downloadUpdate\<close> without
  an error.\<close>

definition runAutoUpdate :: "env \<Rightarrow> Updater \<Rightarrow> world \<Rightarrow> outcome \<times> world" where
  "runAutoUpdate E u w =
     (if \<not> semver_IsValid E (CurrentVersion u) then (Return (Some InvalidLocalVersion), w)
      else
        (let localVersion = CurrentVersion u
         in case fetchRemoteVersion E (S3Bucket u) w of
              (Inl err, w1) \<Rightarrow> (Return (Some err), w1)
            | (Inr remoteVersion, w1) \<Rightarrow>
                if semver_Compare E localVersion remoteVersion = - 1
                then
                  (let w2 = fmt_Print (''upgrading from '' @ localVersion @ '' to '' @ remoteVersion @ newline) w1;
                       downloadURL = generateURL (GOOS E) (GOARCH E) (S3Bucket u) (S3ReleaseKey u) remoteVersion;
                       checksumURL = generateURL (GOOS E) (GOARCH E) (S3Bucket u) (ChecksumKey u) remoteVersion;
                       w3 = (if Verbose u
                             then fmt_Print (''checksumURL: '' @ checksumURL @ newline)
                                    (fmt_Print (''downloadURL: '' @ downloadURL @ newline) w2)
                             else w2)
                   in case downloadUpdate E downloadURL checksumURL remoteVersion w3 of
                        (Return (Some err), w4) \<Rightarrow> (Return (Some err), w4)
                      | (Return None, w4) \<Rightarrow> (Exit 0, w4)
                      | (out, w4) \<Rightarrow> (out, w4))
                else
                  (if Verbose u
                   then (Return None,
                         fmt_Print (''updater: using the latest version: '' @ CurrentVersion u @ newline) w1)
                   else (Return None, w1))))"

definition os_Getenv :: "string \<Rightarrow> world \<Rightarrow> string" where
  "os_Getenv key w = environ w key"

definition AutoUpdate :: "env \<Rightarrow> Updater \<Rightarrow> world \<Rightarrow> outcome \<times> world" where
  "AutoUpdate E u w =
     (if os_Getenv ''S3UPDATE_DISABLED'' w \<noteq> []
      then (Return None, fmt_Print (''s3update: autoupdate disabled'' @ newline) w)
      else (case validate u of
              Some err \<Rightarrow>
                (Return (Some err),
                 fmt_Print (''s3update: '' @ Error err @ '' - skipping auto update'' @ newline) w)
            | None \<Rightarrow> runAutoUpdate E u w))"

section \<open>Semantic versions\<close>

text \<open>
  The package \<^verbatim>\<open>golang.org/x/mod/semver\<close> is imported, not part of the repository. The
  theorems below hold for every \<open>semver_IsValid\<close> and \<open>semver_Compare\<close>; the functions of this
  section follow the package's documented behaviour and are the ones the concrete runs use.
  A version is \<^verbatim>\<open>vMAJOR[.MINOR[.PATCH[-PRERELEASE][+BUILD]]]\<close>.
\<close>

definition isDigit :: "char \<Rightarrow> bool" where
  "isDigit c = (CHR ''0'' \<le> c \<and> c \<le> CHR ''9'')"

definition isIdentChar :: "char \<Rightarrow> bool" where
  "isIdentChar c =
     (CHR ''A'' \<le> c \<and> c \<le> CHR ''Z'' \<or> CHR ''a'' \<le> c \<and> c \<le> CHR ''z''
      \<or> CHR ''0'' \<le> c \<and> c \<le> CHR ''9'' \<or> c = CHR ''-'')"

definition isNum :: "string \<Rightarrow> bool" where
  "isNum v = list_all isDigit v"

definition isBadNum :: "string \<Rightarrow> bool" where
  "isBadNum v = (list_all isDigit v \<and> length v > 1 \<and> take 1 v = ''0'')"

fun splitDots :: "string \<Rightarrow> string list" where
  "splitDots [] = [[]]"
| "splitDots (c # cs) =
     (if c = CHR ''.'' then [] # splitDots cs
      else (case splitDots cs of [] \<Rightarrow> [[c]] | d # ds \<Rightarrow> (c # d) # ds))"

definition parseInt :: "string \<Rightarrow> (string \<times> string) option" where
  "parseInt v =
     (case v of
        [] \<Rightarrow> None
      | c # _ \<Rightarrow>
          if \<not> isDigit c then None
          else if c = CHR ''0'' \<and> length (takeWhile isDigit v) \<noteq> 1 then None
          else Some (takeWhile isDigit v, dropWhile isDigit v))"

text \<open>\<open>parsePrerelease\<close> and \<open>parseBuild\<close> are applied to a text that starts with \<open>-\<close> and with
  \<open>+\<close>; the result keeps that first character.\<close>

definition parsePrerelease :: "string \<Rightarrow> (string \<times> string) option" where
  "parsePrerelease v =
     (let ids = takeWhile (\<lambda>c. c \<noteq> CHR ''+'') (tl v);
          rest = dropWhile (\<lambda>c. c \<noteq> CHR ''+'') (tl v)
      in if list_all (\<lambda>c. isIdentChar c \<or> c = CHR ''.'') ids
            \<and> list_all (\<lambda>d. d \<noteq> [] \<and> \<not> isBadNum d) (splitDots ids)
         then Some (take 1 v @ ids, rest) else None)"

definition parseBuild :: "string \<Rightarrow> (string \<times> string) option" where
  "parseBuild v =
     (if list_all (\<lambda>c. isIdentChar c \<or> c = CHR ''.'') (tl v)
         \<and> list_all (\<lambda>d. d \<noteq> []) (splitDots (tl v))
      then Some (v, []) else None)"

record parsed =
  major :: string
  minor :: string
  patch :: string
  prerelease :: string
  build :: string

definition parse_tail :: "string \<Rightarrow> string \<Rightarrow> string \<Rightarrow> string \<Rightarrow> parsed option" where
  "parse_tail ma mi pa v =
     (case (if take 1 v = ''-'' then parsePrerelease v else Some ([], v)) of
        None \<Rightarrow> None
      | Some (pre, v1) \<Rightarrow>
          (case (if take 1 v1 = ''+'' then parseBuild v1 else Some ([], v1)) of
             None \<Rightarrow> None
           | Some (bld, v2) \<Rightarrow>
               if v2 \<noteq> [] then None
               else Some \<lparr>major = ma, minor = mi, patch = pa, prerelease = pre, build = bld\<rparr>))"

definition parse :: "string \<Rightarrow> parsed option" where
  "parse v =
     (if take 1 v \<noteq> ''v'' then None
      else (case parseInt (tl v) of
        None \<Rightarrow> None
      | Some (ma, v1) \<Rightarrow>
          (if v1 = [] then Some \<lparr>major = ma, minor = ''0'', patch = ''0'', prerelease = [], build = []\<rparr>
           else if take 1 v1 \<noteq> ''.'' then None
           else (case parseInt (tl v1) of
             None \<Rightarrow> None
           | Some (mi, v2) \<Rightarrow>
               (if v2 = [] then Some \<lparr>major = ma, minor = mi, patch = ''0'', prerelease = [], build = []\<rparr>
                else if take 1 v2 \<noteq> ''.'' then None
                else (case parseInt (tl v2) of
                  None \<Rightarrow> None
                | Some (pa, v3) \<Rightarrow> parse_tail ma mi pa v3))))))"

definition IsValid :: "string \<Rightarrow> bool" where
  "IsValid v = (parse v \<noteq> None)"

definition compareInt :: "string \<Rightarrow> string \<Rightarrow> int" where
  "compareInt x y =
     (if x = y then 0
      else if length x < length y then - 1
      else if length x > length y then 1
      else if x < y then - 1 else 1)"

fun compareIdents :: "string list \<Rightarrow> string list \<Rightarrow> int" where
  "compareIdents [] ys = - 1"
| "compareIdents (dx # xs) [] = 1"
| "compareIdents (dx # xs) (dy # ys) =
     (if dx \<noteq> dy then
        (if isNum dx \<noteq> isNum dy then (if isNum dx then - 1 else 1)
         else if isNum dx \<and> length dx < length dy then - 1
         else if isNum dx \<and> length dx > length dy then 1
         else if dx < dy then - 1 else 1)
      else compareIdents xs ys)"

definition comparePrerelease :: "string \<Rightarrow> string \<Rightarrow> int" where
  "comparePrerelease x y =
     (if x = y then 0
      else if x = [] then 1
      else if y = [] then - 1
      else compareIdents (splitDots (tl x)) (splitDots (tl y)))"

definition Compare :: "string \<Rightarrow> string \<Rightarrow> int" where
  "Compare v w =
     (case (parse v, parse w) of
        (None, None) \<Rightarrow> 0
      | (None, Some pw) \<Rightarrow> - 1
      | (Some pv, None) \<Rightarrow> 1
      | (Some pv, Some pw) \<Rightarrow>
          if compareInt (major pv) (major pw) \<noteq> 0 then compareInt (major pv) (major pw)
          else if compareInt (minor pv) (minor pw) \<noteq> 0 then compareInt (minor pv) (minor pw)
          else if compareInt (patch pv) (patch pw) \<noteq> 0 then compareInt (patch pv) (patch pw)
          else comparePrerelease (prerelease pv) (prerelease pw))"

section \<open>A concrete machine\<close>

text \<open>
  The instance used by the concrete runs below: a Linux machine on amd64 whose calls all
  succeed unless a run injects a failure, with the executable at \<^verbatim>\<open>/usr/bin/tool\<close>. The only
  artifact the runs download is the three bytes \<^verbatim>\<open>NEW\<close>, so the digest function needs the right
  value on that input only (its MD5, and that of no bytes); the archive readers are never
  reached. The draw function is the one of lines 146-149 on amd64: its bar repeats a character
  \<^verbatim>\<open>int64(float64(progress) / float64(total) * 38)\<close> times, and \<^verbatim>\<open>strings.Repeat\<close> panics on a
  negative count, which is what the conversion yields when the total is \<open>0\<close> and when the
  total is negative with a positive progress. No read finds the draw interval elapsed.
\<close>

definition md5_hex_empty :: string where
  "md5_hex_empty = ''d41d8cd98f00b204e9800998ecf8427e''"

definition md5_hex_NEW :: string where
  "md5_hex_NEW = ''24d459a81449d7210c8f9a86c2913034''"

definition linux_amd64 :: "(nat \<Rightarrow> string \<Rightarrow> string + response) \<Rightarrow> (nat \<Rightarrow> string option) \<Rightarrow> env" where
  "linux_amd64 server faults =
     \<lparr>GOOS = ''linux'', GOARCH = ''amd64'',
      semver_IsValid = IsValid, semver_Compare = Compare,
      md5_hex = (\<lambda>data. if data = ''NEW'' then md5_hex_NEW
                       else if data = [] then md5_hex_empty
                       else ''00000000000000000000000000000000''),
      gzip_answer = (\<lambda>data. Inl ''gzip: invalid header''),
      tar_answer = (\<lambda>data. Inl ''EOF''),
      http_answer = server,
      exe_answer = Inr ''/usr/bin/tool'',
      symlinks_answer = (\<lambda>p. Inr p),
      fault = faults,
      short_write = (\<lambda>n. 0),
      draw_panics = (\<lambda>progress total. total = 0 \<or> total < 0 \<and> 0 < progress),
      redrawn = (\<lambda>n. [])\<rparr>"

text \<open>A response that delivers \<open>data\<close> in full and announces its length.\<close>

definition served :: "bytes \<Rightarrow> response" where
  "served data = \<lparr>Body = data, Body_err = None, ContentLength = int (length data)\<rparr>"

text \<open>A server that publishes the version \<open>ver\<close> (followed by a newline), the artifact
  \<^verbatim>\<open>NEW\<close>, and \<open>checksum\<close> as its checksum object.\<close>

definition server :: "string \<Rightarrow> string \<Rightarrow> nat \<Rightarrow> string \<Rightarrow> string + response" where
  "server ver checksum n url =
     (if url = ''https://b.s3.amazonaws.com/VERSION'' then Inr (served (ver @ newline))
      else if url = ''https://b.s3.amazonaws.com/tool-linux-amd64'' then Inr (served ''NEW'')
      else if url = ''https://b.s3.amazonaws.com/tool-linux-amd64.md5'' then Inr (served checksum)
      else Inl ''no such host'')"

definition no_faults :: "nat \<Rightarrow> string option" where
  "no_faults n = None"

definition fault_at :: "nat \<Rightarrow> nat \<Rightarrow> string option" where
  "fault_at k n = (if n = k then Some ''permission denied'' else None)"

definition old_binary :: file_data where
  "old_binary = \<lparr>content = ''OLD'', perm = 493\<rparr>"

definition world0 :: world where
  "world0 =
     \<lparr>environ = (\<lambda>key. []), args = [''tool''],
      fs = [''/usr/bin/tool'' \<mapsto> old_binary],
      syscalls = 0, requests = [], stdout = [], fs_log = []\<rparr>"

definition tool :: "string \<Rightarrow> Updater" where
  "tool ver =
     \<lparr>CurrentVersion = ver, S3VersionKey = ''VERSION'', ChecksumKey = ''tool-{{OS}}-{{ARCH}}.md5'',
      S3Bucket = ''b'', S3ReleaseKey = ''tool-{{OS}}-{{ARCH}}'', Verbose = False\<rparr>"

text \<open>The same world with the opt-out variable set, and with the executable missing.\<close>

definition disabled_world :: world where
  "disabled_world = world0\<lparr>environ := (\<lambda>key. if key = ''S3UPDATE_DISABLED'' then ''1'' else [])\<rparr>"

definition vanished_world :: world where
  "vanished_world = world0\<lparr>fs := Map.empty\<rparr>"

section \<open>Notions of the specification\<close>

subsection \<open>Templates\<close>

text \<open>
  The specification describes a key template as text with zero or more of three placeholders,
  each occurrence of which is replaced by its value, the values not being scanned again.
  A template in this sense is a list of tokens; \<open>render_template\<close> is the text the
  configuration holds, and \<open>expand_template\<close> is the substitution the specification describes.
  \<open>substitute_in_order\<close> replaces the placeholders one after the other in a given order, each
  step replacing every occurrence in the text the step before has produced.
\<close>

datatype placeholder = VERSION | ARCH | OS

datatype token = Lit string | Ph placeholder

fun placeholder_text :: "placeholder \<Rightarrow> string" where
  "placeholder_text VERSION = ''{{VERSION}}''"
| "placeholder_text ARCH = ''{{ARCH}}''"
| "placeholder_text OS = ''{{OS}}''"

fun token_text :: "token \<Rightarrow> string" where
  "token_text (Lit s) = s"
| "token_text (Ph p) = placeholder_text p"

definition render_template :: "token list \<Rightarrow> string" where
  "render_template ts = concat (map token_text ts)"

fun expand_token :: "(placeholder \<Rightarrow> string) \<Rightarrow> token \<Rightarrow> string" where
  "expand_token val (Lit s) = s"
| "expand_token val (Ph p) = val p"

definition expand_template :: "(placeholder \<Rightarrow> string) \<Rightarrow> token list \<Rightarrow> string" where
  "expand_template val ts = concat (map (expand_token val) ts)"

definition substitute_in_order :: "placeholder list \<Rightarrow> (placeholder \<Rightarrow> string) \<Rightarrow> string \<Rightarrow> string" where
  "substitute_in_order order val tpl =
     foldl (\<lambda>p ph. strings_Replace p (placeholder_text ph) (val ph)) tpl order"

fun platform_values :: "string \<Rightarrow> string \<Rightarrow> string \<Rightarrow> placeholder \<Rightarrow> string" where
  "platform_values goos goarch version VERSION = version"
| "platform_values goos goarch version ARCH = goarch"
| "platform_values goos goarch version OS = goos"

text \<open>A text without braces, and a template whose literal parts are such texts.\<close>

definition braceless :: "string \<Rightarrow> bool" where
  "braceless s = (CHR ''{'' \<notin> set s \<and> CHR ''}'' \<notin> set s)"

fun plain_token :: "token \<Rightarrow> bool" where
  "plain_token (Lit s) = braceless s"
| "plain_token (Ph p) = True"


fun subst_token :: "placeholder \<Rightarrow> string \<Rightarrow> token \<Rightarrow> token" where
  "subst_token p new (Lit s) = Lit s"
| "subst_token p new (Ph q) = (if q = p then Lit new else Ph q)"

fun subst_done :: "placeholder set \<Rightarrow> (placeholder \<Rightarrow> string) \<Rightarrow> token \<Rightarrow> token" where
  "subst_done P val (Lit s) = Lit s"
| "subst_done P val (Ph q) = (if q \<in> P then Lit (val q) else Ph q)"

subsection \<open>The original binary during an update attempt\<close>

text \<open>
  \<open>parked orig target fsys\<close>: in the file system \<open>fsys\<close> the original binary \<open>orig\<close> is at the
  target path or at the backup path. \<open>before_commit target log\<close> are the file-system states
  of a log up to the call that deletes the backup.
\<close>

definition parked :: "file_data \<Rightarrow> path \<Rightarrow> filesystem \<Rightarrow> bool" where
  "parked orig target fsys = (fsys target = Some orig \<or> fsys (target @ ''.bak'') = Some orig)"

definition is_commit :: "path \<Rightarrow> fs_op \<times> bool \<times> filesystem \<Rightarrow> bool" where
  "is_commit target entry = (fst entry = Remove (target @ ''.bak''))"

definition before_commit :: "path \<Rightarrow> (fs_op \<times> bool \<times> filesystem) list \<Rightarrow> filesystem list" where
  "before_commit target log = map (\<lambda>entry. snd (snd entry)) (takeWhile (\<lambda>entry. \<not> is_commit target entry) log)"

text \<open>
  Notions for following an attempt call by call, from the length \<open>n\<close> of the log at its
  start. \<open>log_ok\<close>: no entry since the start is the commit and each has the original parked.
  \<open>intact\<close>: moreover the original is at the target path. \<open>backed_up\<close>: moreover the original
  is at the backup path. \<open>parked_before_commit\<close>: the original is parked in every state of
  the attempt before the commit. \<open>ends_with\<close>: the last logged call is the given one.
\<close>

definition log_ok :: "file_data \<Rightarrow> path \<Rightarrow> nat \<Rightarrow> world \<Rightarrow> bool" where
  "log_ok orig target n w =
     (n \<le> length (fs_log w)
      \<and> list_all (\<lambda>entry. \<not> is_commit target entry \<and> parked orig target (snd (snd entry))) (drop n (fs_log w)))"

definition intact :: "file_data \<Rightarrow> path \<Rightarrow> nat \<Rightarrow> world \<Rightarrow> bool" where
  "intact orig target n w = (log_ok orig target n w \<and> fs w target = Some orig)"

definition backed_up :: "file_data \<Rightarrow> path \<Rightarrow> nat \<Rightarrow> world \<Rightarrow> bool" where
  "backed_up orig target n w = (log_ok orig target n w \<and> fs w (target @ ''.bak'') = Some orig)"

definition parked_before_commit :: "file_data \<Rightarrow> path \<Rightarrow> nat \<Rightarrow> world \<Rightarrow> bool" where
  "parked_before_commit orig target n w =
     list_all (parked orig target) (before_commit target (drop n (fs_log w)))"

definition ends_with :: "fs_op \<Rightarrow> world \<Rightarrow> bool" where
  "ends_with call w = (fs_log w \<noteq> [] \<and> fst (last (fs_log w)) = call)"

section \<open>URL templating\<close>

lemma strings_Replace_Nil:
  "old \<noteq> [] \<Longrightarrow> strings_Replace [] old new = []"
  by (simp add: strings_Replace.simps)

lemma strings_Replace_Cons:
  "old \<noteq> [] \<Longrightarrow> strings_Replace (c # cs) old new =
     (if prefix old (c # cs) then new @ strings_Replace (drop (length old) (c # cs)) old new
      else c # strings_Replace cs old new)"
  by (subst strings_Replace.simps) simp


lemma placeholder_text_nonempty: "placeholder_text p \<noteq> []"
  by (cases p) simp_all

lemma replace_skip_literal:
  "CHR ''{'' \<notin> set s \<Longrightarrow>
   strings_Replace (s @ rest) (placeholder_text p) new = s @ strings_Replace rest (placeholder_text p) new"
proof (induction s)
  case Nil
  show ?case by simp
next
  case (Cons c s)
  then have "\<not> prefix (placeholder_text p) (c # s @ rest)"
    by (cases p) auto
  with Cons show ?case
    by (simp add: strings_Replace_Cons placeholder_text_nonempty)
qed

lemma replace_hit:
  "strings_Replace (placeholder_text p @ rest) (placeholder_text p) new
     = new @ strings_Replace rest (placeholder_text p) new"
  by (cases p) (simp_all add: strings_Replace_Cons)

lemma replace_other:
  "q \<noteq> p \<Longrightarrow>
   strings_Replace (placeholder_text q @ rest) (placeholder_text p) new
     = placeholder_text q @ strings_Replace rest (placeholder_text p) new"
  by (cases p; cases q) (simp_all add: strings_Replace_Cons)

lemma replace_tokens:
  "list_all plain_token ts \<Longrightarrow>
   strings_Replace (render_template ts) (placeholder_text p) new
     = render_template (map (subst_token p new) ts)"
proof (induction ts)
  case Nil
  show ?case by (simp add: render_template_def strings_Replace_Nil placeholder_text_nonempty)
next
  case (Cons t ts)
  then have IH: "strings_Replace (render_template ts) (placeholder_text p) new
     = render_template (map (subst_token p new) ts)" by simp
  show ?case
  proof (cases t)
    case (Lit s)
    with Cons.prems have "CHR ''{'' \<notin> set s" by (simp add: braceless_def)
    from replace_skip_literal [OF this] IH Lit show ?thesis
      by (simp add: render_template_def)
  next
    case (Ph q)
    show ?thesis
    proof (cases "q = p")
      case True
      with Ph IH replace_hit [of p "render_template ts" new] show ?thesis
        by (simp add: render_template_def)
    next
      case False
      with Ph IH replace_other [of q p "render_template ts" new] show ?thesis
        by (simp add: render_template_def)
    qed
  qed
qed

lemma plain_subst_token:
  "braceless new \<Longrightarrow> list_all plain_token ts \<Longrightarrow> list_all plain_token (map (subst_token p new) ts)"
proof (induction ts)
  case Nil
  show ?case by simp
next
  case (Cons t ts)
  then show ?case by (cases t) simp_all
qed

lemma substitute_in_order_tokens:
  "list_all plain_token ts \<Longrightarrow> (\<forall>p. braceless (val p)) \<Longrightarrow>
   substitute_in_order order val (render_template ts)
     = render_template (map (subst_done (set order) val) ts)"
proof (induction order arbitrary: ts)
  case Nil
  have "subst_done {} val t = t" for t by (cases t) simp_all
  then have "map (subst_done {} val) ts = ts" by (simp add: map_idI)
  then show ?case by (simp add: substitute_in_order_def)
next
  case (Cons p order)
  let ?ts = "map (subst_token p (val p)) ts"
  have plain: "list_all plain_token ?ts" using Cons.prems by (simp add: plain_subst_token)
  have "substitute_in_order (p # order) val (render_template ts)
        = substitute_in_order order val (render_template ?ts)"
    using replace_tokens [OF Cons.prems(1)] by (simp add: substitute_in_order_def)
  also have "\<dots> = render_template (map (subst_done (set order) val) ?ts)"
    using Cons.IH [OF plain Cons.prems(2)] .
  also have "map (subst_done (set order) val) ?ts = map (subst_done (set (p # order)) val) ts"
  proof -
    have "subst_done (set order) val (subst_token p (val p) t) = subst_done (set (p # order)) val t" for t
      by (cases t) auto
    then show ?thesis by simp
  qed
  finally show ?case .
qed

lemma render_all_done:
  "render_template (map (subst_done UNIV val) ts) = expand_template val ts"
proof -
  have "token_text (subst_done UNIV val t) = expand_token val t" for t by (cases t) auto
  then show ?thesis unfolding render_template_def expand_template_def
    by (induction ts) simp_all
qed

lemma generateURL_order:
  "generateURL goos goarch bucket tpl version =
     ''https://'' @ bucket @ ''.s3.amazonaws.com/'' @
       substitute_in_order [VERSION, ARCH, OS] (platform_values goos goarch version) tpl"
  by (simp add: generateURL_def substitute_in_order_def)

lemma all_placeholders: "set [VERSION, ARCH, OS] = UNIV"
proof -
  have "p \<in> set [VERSION, ARCH, OS]" for p by (cases p) simp_all
  then show ?thesis by blast
qed

text \<open>
  C6, as stated, fails: \<^verbatim>\<open>generateURL\<close> replaces \<^verbatim>\<open>{{VERSION}}\<close>, then \<^verbatim>\<open>{{ARCH}}\<close>, then
  \<^verbatim>\<open>{{OS}}\<close>, each in the text the step before has produced. With the template
  \<^verbatim>\<open>{{VERSION}}\<close> and the version \<^verbatim>\<open>{{OS}}\<close> the substituted version is scanned again and becomes
  \<^verbatim>\<open>linux\<close>, where the substitution of the specification gives \<^verbatim>\<open>{{OS}}\<close>; and substituting in
  the order OS, ARCH, VERSION gives \<^verbatim>\<open>{{OS}}\<close> too, so the order matters.
\<close>

theorem generateURL_rescans_values:
  "generateURL ''linux'' ''amd64'' ''b'' (render_template [Ph VERSION]) ''{{OS}}''
     = ''https://b.s3.amazonaws.com/linux''
   \<and> expand_template (platform_values ''linux'' ''amd64'' ''{{OS}}'') [Ph VERSION] = ''{{OS}}''
   \<and> substitute_in_order [OS, ARCH, VERSION] (platform_values ''linux'' ''amd64'' ''{{OS}}'')
        (render_template [Ph VERSION]) = ''{{OS}}''"
  by (simp add: generateURL_def render_template_def expand_template_def substitute_in_order_def
      strings_Replace_Cons strings_Replace_Nil)

text \<open>
  C6, amended: for every template whose literal parts contain no brace and for values of
  the three placeholders that contain no brace, \<^verbatim>\<open>generateURL\<close> yields the URL prefix followed
  by the template with each placeholder occurrence replaced by its value (the values are not
  scanned again), and substituting the three placeholders in any order gives that same key.
\<close>

theorem generateURL_plain_template:
  assumes "list_all plain_token ts"
    and "braceless goos" and "braceless goarch" and "braceless version"
    and "set order = UNIV"
  shows "generateURL goos goarch bucket (render_template ts) version
           = ''https://'' @ bucket @ ''.s3.amazonaws.com/''
               @ expand_template (platform_values goos goarch version) ts
         \<and> substitute_in_order order (platform_values goos goarch version) (render_template ts)
           = expand_template (platform_values goos goarch version) ts"
proof -
  let ?val = "platform_values goos goarch version"
  have bl: "\<forall>p. braceless (?val p)"
  proof
    fix p show "braceless (?val p)" using assms(2-4) by (cases p) simp_all
  qed
  have 1: "substitute_in_order [VERSION, ARCH, OS] ?val (render_template ts) = expand_template ?val ts"
    using substitute_in_order_tokens [OF assms(1) bl, of "[VERSION, ARCH, OS]"]
      render_all_done [of ?val ts]
    by (simp only: all_placeholders)
  have 2: "substitute_in_order order ?val (render_template ts) = expand_template ?val ts"
    using substitute_in_order_tokens [OF assms(1) bl, of order] render_all_done [of ?val ts]
    by (simp only: assms(5))
  show ?thesis using 1 2 by (simp add: generateURL_order)
qed

text \<open>C6, amended, at the template \<^verbatim>\<open>tool-{{OS}}-{{ARCH}}-{{VERSION}}\<close> and the order OS, VERSION,
  ARCH.\<close>

theorem generateURL_plain_template_witness:
  "list_all plain_token [Lit ''tool-'', Ph OS, Lit ''-'', Ph ARCH, Lit ''-'', Ph VERSION]
   \<and> braceless ''linux'' \<and> braceless ''amd64'' \<and> braceless ''v1.2.3''
   \<and> set [OS, VERSION, ARCH] = UNIV
   \<and> generateURL ''linux'' ''amd64'' ''b''
        (render_template [Lit ''tool-'', Ph OS, Lit ''-'', Ph ARCH, Lit ''-'', Ph VERSION]) ''v1.2.3''
       = ''https://b.s3.amazonaws.com/tool-linux-amd64-v1.2.3''
   \<and> substitute_in_order [OS, VERSION, ARCH] (platform_values ''linux'' ''amd64'' ''v1.2.3'')
        (render_template [Lit ''tool-'', Ph OS, Lit ''-'', Ph ARCH, Lit ''-'', Ph VERSION])
       = ''tool-linux-amd64-v1.2.3''"
proof -
  have h1: "list_all plain_token [Lit ''tool-'', Ph OS, Lit ''-'', Ph ARCH, Lit ''-'', Ph VERSION]"
    by (simp add: braceless_def)
  have h2: "braceless ''linux''" and h3: "braceless ''amd64''" and h4: "braceless ''v1.2.3''"
    by (simp_all add: braceless_def)
  have h5: "set [OS, VERSION, ARCH] = UNIV"
    using all_placeholders by auto
  show ?thesis
    using h1 h2 h3 h4 h5 generateURL_plain_template [OF h1 h2 h3 h4 h5, of "''b''"]
    by (simp add: expand_template_def)
qed










section \<open>The update cycle\<close>

subsection \<open>Calls that leave the request log alone\<close>

lemma tick_requests [simp]: "requests (tick w) = requests w"
  by (simp add: tick_def)

lemma record_op_requests [simp]: "requests (record_op call ok w) = requests w"
  by (simp add: record_op_def)

lemma set_content_requests [simp]: "requests (set_content name data w) = requests w"
  by (simp add: set_content_def split: option.splits)

lemma fmt_Print_requests [simp]: "requests (fmt_Print s w) = requests w"
  by (simp add: fmt_Print_def)

lemma os_Stat_requests [simp]: "requests (snd (os_Stat E name w)) = requests w"
  by (simp add: os_Stat_def split: option.splits)

lemma os_Rename_requests [simp]: "requests (snd (os_Rename E a b w)) = requests w"
  by (simp add: os_Rename_def split: option.splits)

lemma os_OpenFile_requests [simp]: "requests (snd (os_OpenFile E name mode w)) = requests w"
  by (simp add: os_OpenFile_def split: option.splits)

lemma os_Create_requests [simp]: "requests (snd (os_Create E name w)) = requests w"
  by (simp add: os_Create_def)

lemma os_Open_requests [simp]: "requests (snd (os_Open E name w)) = requests w"
  by (simp add: os_Open_def split: option.splits)

lemma file_Write_requests [simp]: "requests (snd (file_Write E name data w)) = requests w"
  by (simp add: file_Write_def split: option.splits)

lemma io_Copy_file_world:
  "\<exists>data ok. snd (io_Copy_file E name r w) = record_op (Write name) ok (tick (set_content name data w))"
  by (auto simp: io_Copy_file_def file_Write_def Let_def split: option.splits)

lemma io_Copy_file_requests [simp]: "requests (snd (io_Copy_file E name r w)) = requests w"
proof -
  obtain data ok
    where "snd (io_Copy_file E name r w) = record_op (Write name) ok (tick (set_content name data w))"
    using io_Copy_file_world by blast
  then show ?thesis by simp
qed

lemma io_Copy_hash_requests [simp]: "requests (snd (io_Copy_hash E name w)) = requests w"
  by (simp add: io_Copy_hash_def split: option.splits)

lemma os_Chmod_requests [simp]: "requests (snd (os_Chmod E name mode w)) = requests w"
  by (simp add: os_Chmod_def split: option.splits)

lemma os_Remove_requests [simp]: "requests (snd (os_Remove E name w)) = requests w"
  by (simp add: os_Remove_def split: option.splits)

lemma syscall_Exec_requests [simp]: "requests (snd (syscall_Exec E name w)) = requests w"
  by (simp add: syscall_Exec_def split: option.splits)

lemma snd_of_result: "f = (r, w') \<Longrightarrow> w' = snd f"
  by simp

lemma untgzFile_requests [simp]: "requests (snd (untgzFile E name w)) = requests w"
  unfolding untgzFile_def Let_def
  by (auto split: prod.splits option.splits sum.splits dest!: snd_of_result)

lemma downloadUpdate_requests:
  "\<exists>rs. requests (snd (downloadUpdate E d c v w)) = requests w @ d # rs"
  unfolding downloadUpdate_def Let_def
  by (auto simp: http_Get_def split: prod.splits option.splits sum.splits copied.splits dest!: snd_of_result)

subsection \<open>The opt-out\<close>

text \<open>
  C9: for every configuration, environment and world in which the variable
  \<^verbatim>\<open>S3UPDATE_DISABLED\<close> has a non-empty value, \<^verbatim>\<open>AutoUpdate\<close> returns without an error, makes no
  request, makes no file-system or process call and leaves the file system as it was.
\<close>

theorem AutoUpdate_disabled:
  assumes "os_Getenv ''S3UPDATE_DISABLED'' w \<noteq> []"
  shows "fst (AutoUpdate E u w) = Return None
       \<and> requests (snd (AutoUpdate E u w)) = requests w
       \<and> fs (snd (AutoUpdate E u w)) = fs w
       \<and> fs_log (snd (AutoUpdate E u w)) = fs_log w
       \<and> syscalls (snd (AutoUpdate E u w)) = syscalls w"
  using assms by (simp add: AutoUpdate_def fmt_Print_def)

text \<open>C9 on the concrete machine, with the variable set to \<^verbatim>\<open>1\<close> and a newer version
  published.\<close>

theorem AutoUpdate_disabled_witness:
  "os_Getenv ''S3UPDATE_DISABLED'' disabled_world \<noteq> []
   \<and> fst (AutoUpdate (linux_amd64 (server ''v1.1.0'' md5_hex_NEW) no_faults) (tool ''v1.0.0'') disabled_world)
       = Return None
   \<and> requests (snd (AutoUpdate (linux_amd64 (server ''v1.1.0'' md5_hex_NEW) no_faults) (tool ''v1.0.0'') disabled_world))
       = []
   \<and> fs_log (snd (AutoUpdate (linux_amd64 (server ''v1.1.0'' md5_hex_NEW) no_faults) (tool ''v1.0.0'') disabled_world))
       = []
   \<and> fs (snd (AutoUpdate (linux_amd64 (server ''v1.1.0'' md5_hex_NEW) no_faults) (tool ''v1.0.0'') disabled_world))
       = fs disabled_world"
proof -
  have h: "os_Getenv ''S3UPDATE_DISABLED'' disabled_world \<noteq> []"
    by (simp add: os_Getenv_def disabled_world_def)
  have r: "requests disabled_world = []" "fs_log disabled_world = []"
    by (simp_all add: disabled_world_def world0_def)
  show ?thesis
    using h r AutoUpdate_disabled [OF h, of "linux_amd64 (server ''v1.1.0'' md5_hex_NEW) no_faults" "tool ''v1.0.0''"]
    by simp
qed

subsection \<open>The version comparison\<close>

lemma runAutoUpdate_newer:
  assumes "semver_IsValid E (CurrentVersion u)"
    and "http_answer E (length (requests w)) (''https://'' @ S3Bucket u @ ''.s3.amazonaws.com/VERSION'') = Inr r"
    and "Body_err r = None"
    and "semver_IsValid E (strings_TrimSpace (Body r))"
    and "semver_Compare E (CurrentVersion u) (strings_TrimSpace (Body r)) = - 1"
  shows "\<exists>w3. requests w3 = requests w @ [''https://'' @ S3Bucket u @ ''.s3.amazonaws.com/VERSION'']
            \<and> fs w3 = fs w \<and> fs_log w3 = fs_log w \<and> syscalls w3 = syscalls w
            \<and> (fst (downloadUpdate E
                 (generateURL (GOOS E) (GOARCH E) (S3Bucket u) (S3ReleaseKey u) (strings_TrimSpace (Body r)))
                 (generateURL (GOOS E) (GOARCH E) (S3Bucket u) (ChecksumKey u) (strings_TrimSpace (Body r)))
                 (strings_TrimSpace (Body r)) w3) = Return None \<longrightarrow> fst (runAutoUpdate E u w) = Exit 0)
            \<and> snd (runAutoUpdate E u w) = snd (downloadUpdate E
                 (generateURL (GOOS E) (GOARCH E) (S3Bucket u) (S3ReleaseKey u) (strings_TrimSpace (Body r)))
                 (generateURL (GOOS E) (GOARCH E) (S3Bucket u) (ChecksumKey u) (strings_TrimSpace (Body r)))
                 (strings_TrimSpace (Body r)) w3)"
proof -
  let ?B = "strings_TrimSpace (Body r)"
  let ?d = "generateURL (GOOS E) (GOARCH E) (S3Bucket u) (S3ReleaseKey u) ?B"
  let ?c = "generateURL (GOOS E) (GOARCH E) (S3Bucket u) (ChecksumKey u) ?B"
  let ?w1 = "w\<lparr>requests := requests w @ [''https://'' @ S3Bucket u @ ''.s3.amazonaws.com/VERSION'']\<rparr>"
  let ?w2 = "fmt_Print (''upgrading from '' @ CurrentVersion u @ '' to '' @ ?B @ newline) ?w1"
  let ?w3 = "if Verbose u
             then fmt_Print (''checksumURL: '' @ ?c @ newline) (fmt_Print (''downloadURL: '' @ ?d @ newline) ?w2)
             else ?w2"
  have fetch: "fetchRemoteVersion E (S3Bucket u) w = (Inr ?B, ?w1)"
    using assms(2-4) by (simp add: fetchRemoteVersion_def http_Get_def sys_def ioutil_ReadAll_def)
  have run: "runAutoUpdate E u w =
      (case downloadUpdate E ?d ?c ?B ?w3 of
         (Return (Some err), w4) \<Rightarrow> (Return (Some err), w4)
       | (Return None, w4) \<Rightarrow> (Exit 0, w4)
       | (out, w4) \<Rightarrow> (out, w4))"
    using assms(1,5) fetch by (simp add: runAutoUpdate_def Let_def)
  have 1: "fst (downloadUpdate E ?d ?c ?B ?w3) = Return None \<longrightarrow> fst (runAutoUpdate E u w) = Exit 0"
    unfolding run
    by (cases "downloadUpdate E ?d ?c ?B ?w3") (auto split: outcome.splits option.splits)
  have 2: "snd (runAutoUpdate E u w) = snd (downloadUpdate E ?d ?c ?B ?w3)"
    unfolding run
    by (cases "downloadUpdate E ?d ?c ?B ?w3") (auto split: outcome.splits option.splits)
  have 3: "requests ?w3 = requests w @ [''https://'' @ S3Bucket u @ ''.s3.amazonaws.com/VERSION'']"
    "fs ?w3 = fs w" "fs_log ?w3 = fs_log w" "syscalls ?w3 = syscalls w"
    by (simp_all add: fmt_Print_def)
  from 1 2 3 show ?thesis by blast
qed




subsection \<open>The version object\<close>

lemma snd_finish:
  "snd (case x of
          (Return (Some err), w4) \<Rightarrow> (Return (Some err), w4)
        | (Return None, w4) \<Rightarrow> (Exit 0, w4)
        | (out, w4) \<Rightarrow> (out, w4)) = snd x"
  by (cases x) (auto split: outcome.splits option.splits)

lemma runAutoUpdate_requests:
  assumes "semver_IsValid E (CurrentVersion u)"
  shows "\<exists>rs. requests (snd (runAutoUpdate E u w))
           = requests w @ (''https://'' @ S3Bucket u @ ''.s3.amazonaws.com/VERSION'') # rs"
proof -
  let ?url = "''https://'' @ S3Bucket u @ ''.s3.amazonaws.com/VERSION''"
  let ?w1 = "w\<lparr>requests := requests w @ [?url]\<rparr>"
  have f: "snd (fetchRemoteVersion E (S3Bucket u) w) = ?w1"
    by (simp add: fetchRemoteVersion_def http_Get_def Let_def split: sum.splits)
  show ?thesis
  proof (cases "fetchRemoteVersion E (S3Bucket u) w")
    case (Pair res w1)
    with f have w1: "w1 = ?w1" by simp
    show ?thesis
    proof (cases res)
      case (Inl err)
      with Pair w1 assms show ?thesis by (simp add: runAutoUpdate_def)
    next
      case (Inr B)
      show ?thesis
      proof (cases "semver_Compare E (CurrentVersion u) B = - 1")
        case False
        with Pair Inr w1 assms show ?thesis by (simp add: runAutoUpdate_def fmt_Print_def)
      next
        case True
        let ?d = "generateURL (GOOS E) (GOARCH E) (S3Bucket u) (S3ReleaseKey u) B"
        let ?c = "generateURL (GOOS E) (GOARCH E) (S3Bucket u) (ChecksumKey u) B"
        let ?w2 = "fmt_Print (''upgrading from '' @ CurrentVersion u @ '' to '' @ B @ newline) ?w1"
        let ?w3 = "if Verbose u
             then fmt_Print (''checksumURL: '' @ ?c @ newline) (fmt_Print (''downloadURL: '' @ ?d @ newline) ?w2)
             else ?w2"
        have s: "snd (runAutoUpdate E u w) = snd (downloadUpdate E ?d ?c B ?w3)"
          using Pair Inr w1 assms True by (simp add: runAutoUpdate_def Let_def snd_finish)
        have r3: "requests ?w3 = requests w @ [?url]" by simp
        from downloadUpdate_requests [of E ?d ?c B ?w3] obtain rs where
          "requests (snd (downloadUpdate E ?d ?c B ?w3)) = requests ?w3 @ ?d # rs" by blast
        with s r3 show ?thesis by simp
      qed
    qed
  qed
qed

text \<open>
  C10: for every configuration that passes \<^verbatim>\<open>validate\<close>, the field \<^verbatim>\<open>S3VersionKey\<close> is not
  empty; replacing it by any other non-empty value changes neither the outcome nor the final
  world of \<^verbatim>\<open>AutoUpdate\<close>, for every environment and world; and when the cycle is not disabled
  and the local version is valid, the first request of the cycle goes to
  \<^verbatim>\<open>https://<S3Bucket>.s3.amazonaws.com/VERSION\<close>.
\<close>

theorem S3VersionKey_unused:
  assumes "validate u = None"
  shows "S3VersionKey u \<noteq> []
       \<and> (\<forall>k. k \<noteq> [] \<longrightarrow> AutoUpdate E (u\<lparr>S3VersionKey := k\<rparr>) w = AutoUpdate E u w)
       \<and> (os_Getenv ''S3UPDATE_DISABLED'' w = [] \<and> semver_IsValid E (CurrentVersion u) \<longrightarrow>
            take (Suc (length (requests w))) (requests (snd (AutoUpdate E u w)))
              = requests w @ [''https://'' @ S3Bucket u @ ''.s3.amazonaws.com/VERSION''])"
proof (intro conjI allI impI)
  show "S3VersionKey u \<noteq> []"
    using assms by (auto simp: validate_def split: if_splits)
next
  fix k :: string
  assume "k \<noteq> []"
  then have v: "validate (u\<lparr>S3VersionKey := k\<rparr>) = None"
    using assms by (auto simp: validate_def split: if_splits)
  have "runAutoUpdate E (u\<lparr>S3VersionKey := k\<rparr>) w = runAutoUpdate E u w"
    by (simp add: runAutoUpdate_def Let_def split: prod.splits sum.splits)
  with v assms show "AutoUpdate E (u\<lparr>S3VersionKey := k\<rparr>) w = AutoUpdate E u w"
    by (simp add: AutoUpdate_def)
next
  assume a: "os_Getenv ''S3UPDATE_DISABLED'' w = [] \<and> semver_IsValid E (CurrentVersion u)"
  with assms have "AutoUpdate E u w = runAutoUpdate E u w" by (simp add: AutoUpdate_def)
  moreover from a runAutoUpdate_requests [of E u w] obtain rs where
    "requests (snd (runAutoUpdate E u w)) = requests w @ (''https://'' @ S3Bucket u @ ''.s3.amazonaws.com/VERSION'') # rs"
    by blast
  ultimately show "take (Suc (length (requests w))) (requests (snd (AutoUpdate E u w)))
              = requests w @ [''https://'' @ S3Bucket u @ ''.s3.amazonaws.com/VERSION'']"
    by simp
qed

text \<open>
  C10 on the concrete machine, with the key \<^verbatim>\<open>VERSION\<close> replaced by \<^verbatim>\<open>elsewhere/LATEST\<close>.
\<close>

theorem S3VersionKey_unused_witness:
  "validate (tool ''v1.0.0'') = None
   \<and> S3VersionKey (tool ''v1.0.0'') \<noteq> []
   \<and> AutoUpdate (linux_amd64 (server ''v1.1.0'' md5_hex_NEW) no_faults)
        ((tool ''v1.0.0'')\<lparr>S3VersionKey := ''elsewhere/LATEST''\<rparr>) world0
       = AutoUpdate (linux_amd64 (server ''v1.1.0'' md5_hex_NEW) no_faults) (tool ''v1.0.0'') world0
   \<and> os_Getenv ''S3UPDATE_DISABLED'' world0 = []
   \<and> semver_IsValid (linux_amd64 (server ''v1.1.0'' md5_hex_NEW) no_faults) (CurrentVersion (tool ''v1.0.0''))
   \<and> take (Suc (length (requests world0)))
        (requests (snd (AutoUpdate (linux_amd64 (server ''v1.1.0'' md5_hex_NEW) no_faults) (tool ''v1.0.0'') world0)))
       = requests world0 @ [''https://'' @ S3Bucket (tool ''v1.0.0'') @ ''.s3.amazonaws.com/VERSION'']"
proof -
  let ?E = "linux_amd64 (server ''v1.1.0'' md5_hex_NEW) no_faults"
  let ?u = "tool ''v1.0.0''"
  have h: "validate ?u = None" by (simp add: validate_def tool_def)
  have k: "''elsewhere/LATEST'' \<noteq> []" by simp
  have e: "os_Getenv ''S3UPDATE_DISABLED'' world0 = []" by (simp add: os_Getenv_def world0_def)
  have v: "semver_IsValid ?E (CurrentVersion ?u)" by code_simp
  note th = S3VersionKey_unused [OF h, of ?E world0]
  have 1: "S3VersionKey ?u \<noteq> []" by (rule conjunct1 [OF th])
  have 2: "AutoUpdate ?E (?u\<lparr>S3VersionKey := ''elsewhere/LATEST''\<rparr>) world0 = AutoUpdate ?E ?u world0"
    by (rule mp [OF spec [OF conjunct1 [OF conjunct2 [OF th]]] k])
  have 3: "take (Suc (length (requests world0))) (requests (snd (AutoUpdate ?E ?u world0)))
       = requests world0 @ [''https://'' @ S3Bucket ?u @ ''.s3.amazonaws.com/VERSION'']"
    by (rule mp [OF conjunct2 [OF conjunct2 [OF th]] conjI [OF e v]])
  from h 1 2 e v 3 show ?thesis by blast
qed

subsection \<open>A target that has vanished\<close>

lemmas path_defs = http_Get_def sys_def ioutil_ReadAll_def os_Executable_def filepath_EvalSymlinks_def
  os_Stat_def os_Rename_def os_OpenFile_def io_Copy_file_def file_Write_def os_Open_def io_Copy_hash_def
  set_content_def tick_def record_op_def Let_def

lemma downloadUpdate_target_missing:
  assumes "http_answer E (length (requests w)) downloadURL = Inr resp"
    and "http_answer E (Suc (length (requests w))) checksumURL = Inr cresp" "Body_err cresp = None"
    and "exe_answer E = Inr exe" "symlinks_answer E exe = Inr target"
    and "fs w target = None"
  shows "fst (downloadUpdate E downloadURL checksumURL version w) = Return None
       \<and> fs (snd (downloadUpdate E downloadURL checksumURL version w)) = fs w
       \<and> fs_log (snd (downloadUpdate E downloadURL checksumURL version w)) = fs_log w
       \<and> requests (snd (downloadUpdate E downloadURL checksumURL version w)) = requests w @ [downloadURL, checksumURL]"
  unfolding downloadUpdate_def Let_def
  using assms by (auto simp: path_defs split: option.splits)

text \<open>
  C5, amended: when a newer version is published, the artifact and the checksum are
  fetched, the executable's path is resolved, and no file exists at the resolved path, then
  \<^verbatim>\<open>downloadUpdate\<close> returns without an error and \<^verbatim>\<open>runAutoUpdate\<close> ends the process with exit
  status 0 (control does not return to the caller); the file system is left as it was and no
  call that changes it is made.
\<close>

theorem missing_target_exits:
  assumes "semver_IsValid E (CurrentVersion u)"
    and "http_answer E (length (requests w)) (''https://'' @ S3Bucket u @ ''.s3.amazonaws.com/VERSION'') = Inr r"
    and "Body_err r = None"
    and "semver_IsValid E (strings_TrimSpace (Body r))"
    and "semver_Compare E (CurrentVersion u) (strings_TrimSpace (Body r)) = - 1"
    and "http_answer E (Suc (length (requests w)))
           (generateURL (GOOS E) (GOARCH E) (S3Bucket u) (S3ReleaseKey u) (strings_TrimSpace (Body r))) = Inr resp"
    and "http_answer E (Suc (Suc (length (requests w))))
           (generateURL (GOOS E) (GOARCH E) (S3Bucket u) (ChecksumKey u) (strings_TrimSpace (Body r))) = Inr cresp"
    and "Body_err cresp = None"
    and "exe_answer E = Inr exe" and "symlinks_answer E exe = Inr target"
    and "fs w target = None"
  shows "fst (runAutoUpdate E u w) = Exit 0
       \<and> fs (snd (runAutoUpdate E u w)) = fs w
       \<and> fs_log (snd (runAutoUpdate E u w)) = fs_log w"
proof -
  let ?B = "strings_TrimSpace (Body r)"
  let ?d = "generateURL (GOOS E) (GOARCH E) (S3Bucket u) (S3ReleaseKey u) ?B"
  let ?c = "generateURL (GOOS E) (GOARCH E) (S3Bucket u) (ChecksumKey u) ?B"
  from runAutoUpdate_newer [OF assms(1-5)] obtain w3 where
    w3: "requests w3 = requests w @ [''https://'' @ S3Bucket u @ ''.s3.amazonaws.com/VERSION'']"
      "fs w3 = fs w" "fs_log w3 = fs_log w"
    and out: "fst (downloadUpdate E ?d ?c ?B w3) = Return None \<longrightarrow> fst (runAutoUpdate E u w) = Exit 0"
    and s: "snd (runAutoUpdate E u w) = snd (downloadUpdate E ?d ?c ?B w3)"
    by blast
  have d: "http_answer E (length (requests w3)) ?d = Inr resp"
    and c: "http_answer E (Suc (length (requests w3))) ?c = Inr cresp"
    and g: "fs w3 target = None"
    using assms(6,7,11) w3 by simp_all
  from downloadUpdate_target_missing [OF d c assms(8-10) g, of ?B] out s w3
  show ?thesis by simp
qed

text \<open>
  C5, as stated, fails: on the concrete machine with no file at \<^verbatim>\<open>/usr/bin/tool\<close> and a newer
  version published, \<^verbatim>\<open>AutoUpdate\<close> does not return to its caller; the process exits with
  status 0.
\<close>

theorem missing_target_does_not_return:
  "fs vanished_world ''/usr/bin/tool'' = None
   \<and> fst (AutoUpdate (linux_amd64 (server ''v1.1.0'' md5_hex_NEW) no_faults) (tool ''v1.0.0'') vanished_world)
       = Exit 0"
  by code_simp

text \<open>
  C5, amended, on the concrete machine with no file at \<^verbatim>\<open>/usr/bin/tool\<close>.
\<close>

theorem missing_target_exits_witness:
  "semver_IsValid (linux_amd64 (server ''v1.1.0'' md5_hex_NEW) no_faults) (CurrentVersion (tool ''v1.0.0''))
   \<and> semver_Compare (linux_amd64 (server ''v1.1.0'' md5_hex_NEW) no_faults) (CurrentVersion (tool ''v1.0.0''))
        (strings_TrimSpace (Body (served (''v1.1.0'' @ newline)))) = - 1
   \<and> exe_answer (linux_amd64 (server ''v1.1.0'' md5_hex_NEW) no_faults) = Inr ''/usr/bin/tool''
   \<and> symlinks_answer (linux_amd64 (server ''v1.1.0'' md5_hex_NEW) no_faults) ''/usr/bin/tool'' = Inr ''/usr/bin/tool''
   \<and> fs vanished_world ''/usr/bin/tool'' = None
   \<and> fst (runAutoUpdate (linux_amd64 (server ''v1.1.0'' md5_hex_NEW) no_faults) (tool ''v1.0.0'') vanished_world)
       = Exit 0
   \<and> fs (snd (runAutoUpdate (linux_amd64 (server ''v1.1.0'' md5_hex_NEW) no_faults) (tool ''v1.0.0'') vanished_world))
       = fs vanished_world
   \<and> fs_log (snd (runAutoUpdate (linux_amd64 (server ''v1.1.0'' md5_hex_NEW) no_faults) (tool ''v1.0.0'') vanished_world))
       = fs_log vanished_world"
proof -
  let ?E = "linux_amd64 (server ''v1.1.0'' md5_hex_NEW) no_faults"
  let ?u = "tool ''v1.0.0''"
  let ?r = "(served (''v1.1.0'' @ newline))"
  let ?resp = "(served ''NEW'')"
  let ?cresp = "(served md5_hex_NEW)"
  have t: "strings_TrimSpace (Body ?r) = ''v1.1.0''" by code_simp
  have n: "length (requests vanished_world) = 0" by (simp add: vanished_world_def world0_def)
  have a1: "semver_IsValid ?E (CurrentVersion ?u)" by code_simp
  have a2: "http_answer ?E (length (requests vanished_world)) (''https://'' @ S3Bucket ?u @ ''.s3.amazonaws.com/VERSION'')
              = Inr ?r"
    by (simp add: linux_amd64_def server_def tool_def)
  have a3: "Body_err ?r = None" by (simp add: served_def)
  have a4: "semver_IsValid ?E (strings_TrimSpace (Body ?r))" by code_simp
  have a5: "semver_Compare ?E (CurrentVersion ?u) (strings_TrimSpace (Body ?r)) = - 1" by code_simp
  have g1: "generateURL (GOOS ?E) (GOARCH ?E) (S3Bucket ?u) (S3ReleaseKey ?u) (strings_TrimSpace (Body ?r))
              = ''https://b.s3.amazonaws.com/tool-linux-amd64''"
    by code_simp
  have g2: "generateURL (GOOS ?E) (GOARCH ?E) (S3Bucket ?u) (ChecksumKey ?u) (strings_TrimSpace (Body ?r))
              = ''https://b.s3.amazonaws.com/tool-linux-amd64.md5''"
    by code_simp
  have d: "http_answer ?E (Suc (length (requests vanished_world)))
           (generateURL (GOOS ?E) (GOARCH ?E) (S3Bucket ?u) (S3ReleaseKey ?u) (strings_TrimSpace (Body ?r))) = Inr ?resp"
    unfolding g1 by (simp add: linux_amd64_def server_def)
  have c: "http_answer ?E (Suc (Suc (length (requests vanished_world))))
           (generateURL (GOOS ?E) (GOARCH ?E) (S3Bucket ?u) (ChecksumKey ?u) (strings_TrimSpace (Body ?r))) = Inr ?cresp"
    unfolding g2 by (simp add: linux_amd64_def server_def)
  have c2: "Body_err ?cresp = None" by (simp add: served_def)
  have e1: "exe_answer ?E = Inr ''/usr/bin/tool''" by (simp add: linux_amd64_def)
  have e2: "symlinks_answer ?E ''/usr/bin/tool'' = Inr ''/usr/bin/tool''" by (simp add: linux_amd64_def)
  have gone: "fs vanished_world ''/usr/bin/tool'' = None" by (simp add: vanished_world_def)
  note th = missing_target_exits [OF a1 a2 a3 a4 a5 d c c2 e1 e2 gone]
  from a1 a5 e1 e2 gone th show ?thesis by blast
qed

subsection \<open>Verification of the checksum\<close>

text \<open>
  The calls of \<^verbatim>\<open>downloadUpdate\<close> up to the comparison of the checksum are, in this order,
  \<^verbatim>\<open>os.Stat\<close>, the rename of the target to the backup, \<^verbatim>\<open>os.OpenFile\<close>, the copy of the body into
  the file, \<^verbatim>\<open>os.Open\<close> and the copy of the file into the hash: six calls, with the indices
  \<open>syscalls w\<close> to \<open>syscalls w + 5\<close>. The call that follows a mismatch, the rename of the
  backup over the target, has the index \<open>syscalls w + 6\<close>. The comparison is reached only when
  the copy of the body completes, which needs every call of the draw function to return: the
  progress reader calls it with the total \<^verbatim>\<open>resp.ContentLength\<close> and counts of bytes up to the
  length of the body.
\<close>

lemma no_draw_panics:
  assumes "\<forall>p\<le>length (Body resp). \<not> draw_panics E (int p) (ContentLength resp)"
  shows "find (\<lambda>p. draw_panics E (int p) (ContentLength resp)) (draws E n (length (Body resp))) = None"
    and "\<not> draw_panics E (int (length (Body resp))) (ContentLength resp)"
  using assms by (auto simp: find_None_iff draws_def)

text \<open>
  When the draw function panics at the first draw, as the one of the concrete machine does
  for an announced length of \<open>0\<close>, the attempt ends in the panic with the target emptied and
  the original at the backup path: no rename brings it back.
\<close>

lemma panic_at_first_draw:
  assumes d: "http_answer E (length (requests w)) downloadURL = Inr resp"
    and c: "http_answer E (Suc (length (requests w))) checksumURL = Inr cresp" "Body_err cresp = None"
    and exe: "exe_answer E = Inr exe" "symlinks_answer E exe = Inr target"
    and orig: "fs w target = Some orig"
    and ok: "fault E (syscalls w) = None" "fault E (Suc (syscalls w)) = None"
      "fault E (Suc (Suc (syscalls w))) = None"
    and panic: "draw_panics E 0 (ContentLength resp)"
  shows "fst (downloadUpdate E downloadURL checksumURL version w) = Panic
       \<and> fs (snd (downloadUpdate E downloadURL checksumURL version w)) target
           = Some \<lparr>content = [], perm = 493\<rparr>
       \<and> fs (snd (downloadUpdate E downloadURL checksumURL version w)) (target @ ''.bak'') = Some orig"
  unfolding downloadUpdate_def Let_def
  using assms by (auto simp: path_defs draws_def)

lemma linux_amd64_draw_panics:
  "draw_panics (linux_amd64 answers faults) 0 0"
  "0 < p \<Longrightarrow> draw_panics (linux_amd64 answers faults) p (- 1)"
  "0 < n \<Longrightarrow> \<not> draw_panics (linux_amd64 answers faults) p n"
  by (simp_all add: linux_amd64_def)

lemma fault_upto:
  assumes "\<forall>k<6. fault E (n + k) = None"
  shows "fault E n = None" "fault E (Suc n) = None" "fault E (Suc (Suc n)) = None"
    "fault E (Suc (Suc (Suc n))) = None" "fault E (Suc (Suc (Suc (Suc n)))) = None"
    "fault E (Suc (Suc (Suc (Suc (Suc n))))) = None"
  using assms [rule_format, of 0] assms [rule_format, of 1] assms [rule_format, of 2]
    assms [rule_format, of 3] assms [rule_format, of 4] assms [rule_format, of 5]
  by (simp_all add: eval_nat_numeral)

text \<open>
  C1, as stated, fails: the result of the rename of the backup over the target is
  discarded, so when that rename fails the attempt still returns the checksum-mismatch error
  and the target keeps the downloaded bytes (\<^verbatim>\<open>NEW\<close>) instead of its content before the
  attempt (\<^verbatim>\<open>OLD\<close>).
\<close>

theorem failed_restore_leaves_download:
  "map_option content (fs world0 ''/usr/bin/tool'') = Some ''OLD''
   \<and> md5_hex (linux_amd64 (server ''v1.1.0'' ''bad'') (fault_at 6)) ''NEW'' \<noteq> ''bad''
   \<and> fst (AutoUpdate (linux_amd64 (server ''v1.1.0'' ''bad'') (fault_at 6)) (tool ''v1.0.0'') world0)
       = Return (Some (ChecksumMismatch ''v1.1.0''))
   \<and> map (\<lambda>entry. (fst entry, fst (snd entry)))
        (fs_log (snd (AutoUpdate (linux_amd64 (server ''v1.1.0'' ''bad'') (fault_at 6)) (tool ''v1.0.0'') world0)))
       = [(Rename ''/usr/bin/tool'' ''/usr/bin/tool.bak'', True), (OpenFile ''/usr/bin/tool'', True),
          (Write ''/usr/bin/tool'', True), (Rename ''/usr/bin/tool.bak'' ''/usr/bin/tool'', False)]
   \<and> map_option content
        (fs (snd (AutoUpdate (linux_amd64 (server ''v1.1.0'' ''bad'') (fault_at 6)) (tool ''v1.0.0'') world0))
           ''/usr/bin/tool'') = Some ''NEW''"
  by code_simp

text \<open>
  C1, amended: in every update attempt in which the artifact and the checksum are fetched,
  the target exists, no call of the draw function panics while the artifact is copied, the
  six calls up to the comparison succeed (so the original is at the backup path and the
  artifact is written) and the digest of the written artifact differs from the checksum
  payload, the attempt returns the checksum-mismatch error carrying the remote version, and
  its last file-system call is the rename of the backup over the target. When that rename
  succeeds, the target is the file it was before the attempt and the backup path is free;
  when it fails, the original stays at the backup path.
\<close>

theorem checksum_mismatch_restores:
  assumes d: "http_answer E (length (requests w)) downloadURL = Inr resp" "Body_err resp = None"
    and c: "http_answer E (Suc (length (requests w))) checksumURL = Inr cresp" "Body_err cresp = None"
    and exe: "exe_answer E = Inr exe" "symlinks_answer E exe = Inr target"
    and orig: "fs w target = Some orig"
    and calm: "\<forall>p\<le>length (Body resp). \<not> draw_panics E (int p) (ContentLength resp)"
    and ok: "\<forall>k<6. fault E (syscalls w + k) = None"
    and mismatch: "Body cresp \<noteq> md5_hex E (Body resp)"
  shows "fst (downloadUpdate E downloadURL checksumURL version w) = Return (Some (ChecksumMismatch version))
       \<and> fst (last (fs_log (snd (downloadUpdate E downloadURL checksumURL version w))))
           = Rename (target @ ''.bak'') target
       \<and> (fault E (syscalls w + 6) = None \<longrightarrow>
            fs (snd (downloadUpdate E downloadURL checksumURL version w)) target = Some orig
          \<and> fs (snd (downloadUpdate E downloadURL checksumURL version w)) (target @ ''.bak'') = None)
       \<and> (fault E (syscalls w + 6) \<noteq> None \<longrightarrow>
            fs (snd (downloadUpdate E downloadURL checksumURL version w)) (target @ ''.bak'') = Some orig)"
proof -
  note f = fault_upto [OF ok]
  have f6: "syscalls w + 6 = Suc (Suc (Suc (Suc (Suc (Suc (syscalls w))))))" by (simp add: eval_nat_numeral)
  show ?thesis
    unfolding downloadUpdate_def Let_def f6
    using d c exe orig mismatch f
    by (auto simp: path_defs no_draw_panics [OF calm] split: option.splits)
qed

text \<open>
  C1, amended, on the concrete machine with the artifact \<^verbatim>\<open>NEW\<close> of announced length 3, the
  checksum payload \<^verbatim>\<open>bad\<close> and no failing call.
\<close>

theorem checksum_mismatch_restores_witness:
  "http_answer (linux_amd64 (server ''v1.1.0'' ''bad'') no_faults) (length (requests world0))
       ''https://b.s3.amazonaws.com/tool-linux-amd64'' = Inr (served ''NEW'')
   \<and> http_answer (linux_amd64 (server ''v1.1.0'' ''bad'') no_faults) (Suc (length (requests world0)))
       ''https://b.s3.amazonaws.com/tool-linux-amd64.md5'' = Inr (served ''bad'')
   \<and> exe_answer (linux_amd64 (server ''v1.1.0'' ''bad'') no_faults) = Inr ''/usr/bin/tool''
   \<and> symlinks_answer (linux_amd64 (server ''v1.1.0'' ''bad'') no_faults) ''/usr/bin/tool'' = Inr ''/usr/bin/tool''
   \<and> fs world0 ''/usr/bin/tool'' = Some old_binary
   \<and> (\<forall>p. \<not> draw_panics (linux_amd64 (server ''v1.1.0'' ''bad'') no_faults) (int p)
                 (ContentLength (served ''NEW'')))
   \<and> (\<forall>k. fault (linux_amd64 (server ''v1.1.0'' ''bad'') no_faults) k = None)
   \<and> Body (served ''bad'')
        \<noteq> md5_hex (linux_amd64 (server ''v1.1.0'' ''bad'') no_faults) (Body (served ''NEW''))
   \<and> fst (downloadUpdate (linux_amd64 (server ''v1.1.0'' ''bad'') no_faults)
        ''https://b.s3.amazonaws.com/tool-linux-amd64'' ''https://b.s3.amazonaws.com/tool-linux-amd64.md5''
        ''v1.1.0'' world0) = Return (Some (ChecksumMismatch ''v1.1.0''))
   \<and> fst (last (fs_log (snd (downloadUpdate (linux_amd64 (server ''v1.1.0'' ''bad'') no_faults)
        ''https://b.s3.amazonaws.com/tool-linux-amd64'' ''https://b.s3.amazonaws.com/tool-linux-amd64.md5''
        ''v1.1.0'' world0)))) = Rename (''/usr/bin/tool'' @ ''.bak'') ''/usr/bin/tool''
   \<and> fs (snd (downloadUpdate (linux_amd64 (server ''v1.1.0'' ''bad'') no_faults)
        ''https://b.s3.amazonaws.com/tool-linux-amd64'' ''https://b.s3.amazonaws.com/tool-linux-amd64.md5''
        ''v1.1.0'' world0)) ''/usr/bin/tool'' = Some old_binary
   \<and> fs (snd (downloadUpdate (linux_amd64 (server ''v1.1.0'' ''bad'') no_faults)
        ''https://b.s3.amazonaws.com/tool-linux-amd64'' ''https://b.s3.amazonaws.com/tool-linux-amd64.md5''
        ''v1.1.0'' world0)) (''/usr/bin/tool'' @ ''.bak'') = None"
proof -
  let ?E = "linux_amd64 (server ''v1.1.0'' ''bad'') no_faults"
  let ?d = "''https://b.s3.amazonaws.com/tool-linux-amd64''"
  let ?c = "''https://b.s3.amazonaws.com/tool-linux-amd64.md5''"
  let ?t = "''/usr/bin/tool''"
  let ?resp = "(served ''NEW'')"
  let ?cresp = "(served ''bad'')"
  have d1: "http_answer ?E (length (requests world0)) ?d = Inr ?resp"
    by (simp add: linux_amd64_def server_def)
  have d2: "Body_err ?resp = None" by (simp add: served_def)
  have c1: "http_answer ?E (Suc (length (requests world0))) ?c = Inr ?cresp"
    by (simp add: linux_amd64_def server_def)
  have c2: "Body_err ?cresp = None" by (simp add: served_def)
  have e1: "exe_answer ?E = Inr ?t" by (simp add: linux_amd64_def)
  have e2: "symlinks_answer ?E ?t = Inr ?t" by (simp add: linux_amd64_def)
  have o: "fs world0 ?t = Some old_binary" by (simp add: world0_def)
  have nf: "\<forall>k. fault ?E k = None" by (simp add: linux_amd64_def no_faults_def)
  then have ok: "\<forall>k<6. fault ?E (syscalls world0 + k) = None" by simp
  from nf have r: "fault ?E (syscalls world0 + 6) = None" by simp
  have np: "\<forall>p. \<not> draw_panics ?E (int p) (ContentLength ?resp)"
    by (simp add: linux_amd64_def served_def)
  then have calm: "\<forall>p\<le>length (Body ?resp). \<not> draw_panics ?E (int p) (ContentLength ?resp)" by simp
  have m: "Body ?cresp \<noteq> md5_hex ?E (Body ?resp)"
    by (simp add: linux_amd64_def md5_hex_NEW_def served_def)
  note th = checksum_mismatch_restores [OF d1 d2 c1 c2 e1 e2 o calm ok m, of "''v1.1.0''"]
  have 1: "fst (downloadUpdate ?E ?d ?c ''v1.1.0'' world0) = Return (Some (ChecksumMismatch ''v1.1.0''))"
    by (rule conjunct1 [OF th])
  have 2: "fst (last (fs_log (snd (downloadUpdate ?E ?d ?c ''v1.1.0'' world0)))) = Rename (?t @ ''.bak'') ?t"
    by (rule conjunct1 [OF conjunct2 [OF th]])
  have 3: "fs (snd (downloadUpdate ?E ?d ?c ''v1.1.0'' world0)) ?t = Some old_binary
         \<and> fs (snd (downloadUpdate ?E ?d ?c ''v1.1.0'' world0)) (?t @ ''.bak'') = None"
    by (rule mp [OF conjunct1 [OF conjunct2 [OF conjunct2 [OF th]]] r])
  from d1 c1 e1 e2 o np nf m 1 2 3 show ?thesis by blast
qed

text \<open>
  C8, as stated, fails: the checksum payload is compared as it was received. With the
  payload the digest of the artifact \<^verbatim>\<open>NEW\<close> followed by a newline, the trimmed payload equals
  the digest, yet the attempt ends with the checksum-mismatch error; with the payload the
  digest alone the update goes through.
\<close>

theorem trailing_newline_is_a_mismatch:
  "strings_TrimSpace (md5_hex_NEW @ newline)
       = md5_hex (linux_amd64 (server ''v1.1.0'' (md5_hex_NEW @ newline)) no_faults) ''NEW''
   \<and> fst (AutoUpdate (linux_amd64 (server ''v1.1.0'' (md5_hex_NEW @ newline)) no_faults) (tool ''v1.0.0'') world0)
       = Return (Some (ChecksumMismatch ''v1.1.0''))
   \<and> fst (AutoUpdate (linux_amd64 (server ''v1.1.0'' md5_hex_NEW) no_faults) (tool ''v1.0.0'') world0)
       = Exec ''/usr/bin/tool'' [''tool'']"
  by code_simp

lemma os_Open_error: "os_Open E name w = (Some (ChecksumMismatch v), w') \<Longrightarrow> False"
  by (auto simp: os_Open_def ENOENT_def split: option.splits if_splits)

lemma os_Create_error: "os_Create E name w = (Some (ChecksumMismatch v), w') \<Longrightarrow> False"
  by (auto simp: os_Create_def os_OpenFile_def split: option.splits)

lemma file_Write_error: "file_Write E name data w = (Some (ChecksumMismatch v), w') \<Longrightarrow> False"
  by (auto simp: file_Write_def split: option.splits)

lemma file_Write_error_fst: "fst (file_Write E name data w) \<noteq> Some (ChecksumMismatch v)"
  by (auto simp: file_Write_def split: option.splits)

lemma untgzFile_error: "fst (untgzFile E name w) \<noteq> Some (ChecksumMismatch v)"
  unfolding untgzFile_def Let_def
  by (auto simp: gzip_NewReader_def tar_Next_def sys_def file_Write_error_fst
      split: option.splits sum.splits prod.splits if_splits
      dest: os_Open_error os_Create_error file_Write_error)

lemma os_Chmod_error: "fst (os_Chmod E name mode w) \<noteq> Some (ChecksumMismatch v)"
  by (auto simp: os_Chmod_def ENOENT_def split: option.splits)

lemma syscall_Exec_error: "fst (syscall_Exec E name w) \<noteq> Return (Some (ChecksumMismatch v))"
  by (auto simp: syscall_Exec_def ENOENT_def split: option.splits)

lemma mismatch_reported:
  assumes d: "http_answer E (length (requests w)) downloadURL = Inr resp" "Body_err resp = None"
    and c: "http_answer E (Suc (length (requests w))) checksumURL = Inr cresp" "Body_err cresp = None"
    and exe: "exe_answer E = Inr exe" "symlinks_answer E exe = Inr target"
    and orig: "fs w target = Some orig"
    and calm: "\<forall>p\<le>length (Body resp). \<not> draw_panics E (int p) (ContentLength resp)"
    and ok: "\<forall>k<6. fault E (syscalls w + k) = None"
    and mismatch: "Body cresp \<noteq> md5_hex E (Body resp)"
  shows "fst (downloadUpdate E downloadURL checksumURL version w) = Return (Some (ChecksumMismatch version))"
proof -
  note f = fault_upto [OF ok]
  show ?thesis
    unfolding downloadUpdate_def Let_def
    using d c exe orig mismatch f
    by (simp add: path_defs no_draw_panics [OF calm])
qed

lemma after_verification:
  "fst (case (if tgz then untgzFile E target w8 else (None, w8)) of
          (Some err, w9) \<Rightarrow> (Return (Some err), snd (os_Rename E backup target w9))
        | (None, w9) \<Rightarrow>
            (case os_Chmod E target 493 w9 of
               (Some err, w10) \<Rightarrow> (Return (Some err), snd (os_Rename E backup target w10))
             | (None, w10) \<Rightarrow> syscall_Exec E target (pr (snd (os_Remove E backup w10)))))
     \<noteq> Return (Some (ChecksumMismatch v))"
proof -
  have u: "fst (if tgz then untgzFile E target w8 else (None, w8)) \<noteq> Some (ChecksumMismatch v)"
    using untgzFile_error [of E target w8 v] by simp
  show ?thesis
  proof (cases "if tgz then untgzFile E target w8 else (None, w8)")
    case (Pair e w9)
    with u have e: "e \<noteq> Some (ChecksumMismatch v)" by simp
    show ?thesis
    proof (cases e)
      case (Some err)
      with Pair e show ?thesis by simp
    next
      case None
      show ?thesis
      proof (cases "os_Chmod E target 493 w9")
        case (Pair e' w10)
        with os_Chmod_error [of E target 493 w9 v] have e': "e' \<noteq> Some (ChecksumMismatch v)" by simp
        from Pair \<open>(if tgz then untgzFile E target w8 else (None, w8)) = (e, w9)\<close> None e'
          syscall_Exec_error [of E target _ v]
        show ?thesis by (cases e') simp_all
      qed
    qed
  qed
qed

text \<open>
  C8, amended: after the artifact is written, its digest is compared as an exact string
  match against the checksum payload as received, nothing being stripped: in every attempt
  that reaches the comparison (the artifact and the checksum are fetched, the target exists,
  no call of the draw function panics while the artifact is copied, and the six calls up to
  the comparison succeed), the attempt ends with the checksum-mismatch error exactly when the
  payload differs from the digest.
\<close>

theorem checksum_compared_raw:
  assumes d: "http_answer E (length (requests w)) downloadURL = Inr resp" "Body_err resp = None"
    and c: "http_answer E (Suc (length (requests w))) checksumURL = Inr cresp" "Body_err cresp = None"
    and exe: "exe_answer E = Inr exe" "symlinks_answer E exe = Inr target"
    and orig: "fs w target = Some orig"
    and calm: "\<forall>p\<le>length (Body resp). \<not> draw_panics E (int p) (ContentLength resp)"
    and ok: "\<forall>k<6. fault E (syscalls w + k) = None"
  shows "(fst (downloadUpdate E downloadURL checksumURL version w) = Return (Some (ChecksumMismatch version)))
           = (Body cresp \<noteq> md5_hex E (Body resp))"
proof (cases "Body cresp = md5_hex E (Body resp)")
  case False
  from mismatch_reported [OF d c exe orig calm ok False] False show ?thesis by simp
next
  case True
  note f = fault_upto [OF ok]
  have "fst (downloadUpdate E downloadURL checksumURL version w) \<noteq> Return (Some (ChecksumMismatch version))"
    unfolding downloadUpdate_def Let_def
    using d c exe orig True f
    by (simp add: path_defs no_draw_panics [OF calm] after_verification)
  with True show ?thesis by simp
qed

text \<open>
  C8, amended, on the concrete machine with the artifact \<^verbatim>\<open>NEW\<close> of announced length 3 and its
  digest as checksum payload.
\<close>

theorem checksum_compared_raw_witness:
  "http_answer (linux_amd64 (server ''v1.1.0'' md5_hex_NEW) no_faults) (length (requests world0))
       ''https://b.s3.amazonaws.com/tool-linux-amd64'' = Inr (served ''NEW'')
   \<and> http_answer (linux_amd64 (server ''v1.1.0'' md5_hex_NEW) no_faults) (Suc (length (requests world0)))
       ''https://b.s3.amazonaws.com/tool-linux-amd64.md5'' = Inr (served md5_hex_NEW)
   \<and> exe_answer (linux_amd64 (server ''v1.1.0'' md5_hex_NEW) no_faults) = Inr ''/usr/bin/tool''
   \<and> symlinks_answer (linux_amd64 (server ''v1.1.0'' md5_hex_NEW) no_faults) ''/usr/bin/tool'' = Inr ''/usr/bin/tool''
   \<and> fs world0 ''/usr/bin/tool'' = Some old_binary
   \<and> (\<forall>p. \<not> draw_panics (linux_amd64 (server ''v1.1.0'' md5_hex_NEW) no_faults) (int p)
                 (ContentLength (served ''NEW'')))
   \<and> (\<forall>k. fault (linux_amd64 (server ''v1.1.0'' md5_hex_NEW) no_faults) k = None)
   \<and> (fst (downloadUpdate (linux_amd64 (server ''v1.1.0'' md5_hex_NEW) no_faults)
        ''https://b.s3.amazonaws.com/tool-linux-amd64'' ''https://b.s3.amazonaws.com/tool-linux-amd64.md5''
        ''v1.1.0'' world0) = Return (Some (ChecksumMismatch ''v1.1.0'')))
       = (Body (served md5_hex_NEW)
            \<noteq> md5_hex (linux_amd64 (server ''v1.1.0'' md5_hex_NEW) no_faults) (Body (served ''NEW'')))
   \<and> Body (served md5_hex_NEW)
       = md5_hex (linux_amd64 (server ''v1.1.0'' md5_hex_NEW) no_faults) (Body (served ''NEW''))"
proof -
  let ?E = "linux_amd64 (server ''v1.1.0'' md5_hex_NEW) no_faults"
  let ?d = "''https://b.s3.amazonaws.com/tool-linux-amd64''"
  let ?c = "''https://b.s3.amazonaws.com/tool-linux-amd64.md5''"
  let ?t = "''/usr/bin/tool''"
  let ?resp = "(served ''NEW'')"
  let ?cresp = "(served md5_hex_NEW)"
  have d1: "http_answer ?E (length (requests world0)) ?d = Inr ?resp"
    by (simp add: linux_amd64_def server_def)
  have d2: "Body_err ?resp = None" by (simp add: served_def)
  have c1: "http_answer ?E (Suc (length (requests world0))) ?c = Inr ?cresp"
    by (simp add: linux_amd64_def server_def)
  have c2: "Body_err ?cresp = None" by (simp add: served_def)
  have e1: "exe_answer ?E = Inr ?t" by (simp add: linux_amd64_def)
  have e2: "symlinks_answer ?E ?t = Inr ?t" by (simp add: linux_amd64_def)
  have o: "fs world0 ?t = Some old_binary" by (simp add: world0_def)
  have nf: "\<forall>k. fault ?E k = None" by (simp add: linux_amd64_def no_faults_def)
  then have ok: "\<forall>k<6. fault ?E (syscalls world0 + k) = None" by simp
  have np: "\<forall>p. \<not> draw_panics ?E (int p) (ContentLength ?resp)"
    by (simp add: linux_amd64_def served_def)
  then have calm: "\<forall>p\<le>length (Body ?resp). \<not> draw_panics ?E (int p) (ContentLength ?resp)" by simp
  have m: "Body ?cresp = md5_hex ?E (Body ?resp)"
    by (simp add: linux_amd64_def served_def)
  note th = checksum_compared_raw [OF d1 d2 c1 c2 e1 e2 o calm ok, of "''v1.1.0''"]
  from d1 c1 e1 e2 o np nf th m show ?thesis by blast
qed

subsection \<open>The original binary\<close>

text \<open>
  Every call of \<^verbatim>\<open>downloadUpdate\<close> between the backup and the commit works on the target path
  and leaves the backup path alone; so once the rename of the target to the backup has not
  failed, the original stays parked up to the commit, whatever else fails.
\<close>

lemma intact_start: "fs w target = Some orig \<Longrightarrow> intact orig target (length (fs_log w)) w"
  by (simp add: intact_def log_ok_def)

lemma http_Get_intact:
  "http_Get E url w = (r, w') \<Longrightarrow> intact orig target n w \<Longrightarrow> intact orig target n w' \<and> syscalls w' = syscalls w"
  by (auto simp: http_Get_def intact_def log_ok_def)

lemma os_Stat_intact:
  "os_Stat E name w = (r, w') \<Longrightarrow> intact orig target n w \<Longrightarrow> intact orig target n w' \<and> syscalls w' = Suc (syscalls w)"
  by (auto simp: os_Stat_def tick_def intact_def log_ok_def split: option.splits if_splits)

lemma backup_rename:
  "intact orig target n w \<Longrightarrow> fault E (syscalls w) = None \<Longrightarrow>
   backed_up orig target n (snd (os_Rename E target (target @ ''.bak'') w))"
  by (auto simp: os_Rename_def tick_def record_op_def intact_def backed_up_def log_ok_def is_commit_def parked_def)

lemma os_OpenFile_backed_up:
  "os_OpenFile E target mode w = (r, w') \<Longrightarrow> backed_up orig target n w \<Longrightarrow> backed_up orig target n w'"
  by (auto simp: os_OpenFile_def tick_def record_op_def backed_up_def log_ok_def is_commit_def parked_def
      split: option.splits)

lemma file_Write_backed_up:
  "file_Write E target data w = (r, w') \<Longrightarrow> backed_up orig target n w \<Longrightarrow> backed_up orig target n w'"
  by (auto simp: file_Write_def set_content_def tick_def record_op_def backed_up_def log_ok_def is_commit_def parked_def
      split: option.splits)

lemma write_backed_up:
  "backed_up orig target n w \<Longrightarrow>
   backed_up orig target n (record_op (Write target) ok (tick (set_content target data w)))"
  by (auto simp: set_content_def tick_def record_op_def backed_up_def log_ok_def is_commit_def parked_def
      split: option.splits)

lemma os_Open_backed_up:
  "os_Open E name w = (r, w') \<Longrightarrow> backed_up orig target n w \<Longrightarrow> backed_up orig target n w'"
  by (auto simp: os_Open_def tick_def backed_up_def log_ok_def split: option.splits if_splits)

lemma io_Copy_hash_backed_up:
  "io_Copy_hash E name w = (r, w') \<Longrightarrow> backed_up orig target n w \<Longrightarrow> backed_up orig target n w'"
  by (auto simp: io_Copy_hash_def tick_def backed_up_def log_ok_def split: option.splits)

lemma os_Chmod_backed_up:
  "os_Chmod E target mode w = (r, w') \<Longrightarrow> backed_up orig target n w \<Longrightarrow> backed_up orig target n w'"
  by (auto simp: os_Chmod_def tick_def record_op_def backed_up_def log_ok_def is_commit_def parked_def
      split: option.splits)

lemma os_Remove_target_backed_up:
  "backed_up orig target n w \<Longrightarrow> backed_up orig target n (snd (os_Remove E target w))"
  by (auto simp: os_Remove_def tick_def record_op_def backed_up_def log_ok_def is_commit_def parked_def
      split: option.splits)

lemma log_ok_parked: "log_ok orig target n w \<Longrightarrow> parked_before_commit orig target n w"
proof -
  have "list_all (\<lambda>entry. \<not> is_commit target entry \<and> parked orig target (snd (snd entry))) xs \<Longrightarrow>
        list_all (parked orig target) (before_commit target xs)" for xs
    by (induction xs) (simp_all add: before_commit_def)
  then show "log_ok orig target n w \<Longrightarrow> parked_before_commit orig target n w"
    by (simp add: log_ok_def parked_before_commit_def)
qed

lemma intact_log_ok: "intact orig target n w \<Longrightarrow> log_ok orig target n w"
  by (simp add: intact_def)

lemma backed_up_log_ok: "backed_up orig target n w \<Longrightarrow> log_ok orig target n w"
  by (simp add: backed_up_def)

lemma restore_log_ok:
  "backed_up orig target n w \<Longrightarrow> log_ok orig target n (snd (os_Rename E (target @ ''.bak'') target w))"
  by (auto simp: os_Rename_def tick_def record_op_def backed_up_def log_ok_def is_commit_def parked_def
      split: option.splits)

lemma commit_parked:
  assumes "backed_up orig target n w"
  shows "parked_before_commit orig target n
           (snd (syscall_Exec E target (fmt_Print s (snd (os_Remove E (target @ ''.bak'') w)))))"
proof -
  let ?w' = "snd (syscall_Exec E target (fmt_Print s (snd (os_Remove E (target @ ''.bak'') w))))"
  have "\<exists>ok fsys. fs_log ?w' = fs_log w @ [(Remove (target @ ''.bak''), ok, fsys)]"
    by (auto simp: syscall_Exec_def fmt_Print_def os_Remove_def tick_def record_op_def split: option.splits)
  then obtain ok fsys where l: "fs_log ?w' = fs_log w @ [(Remove (target @ ''.bak''), ok, fsys)]" by blast
  from assms have n: "n \<le> length (fs_log w)"
    and a: "list_all (\<lambda>entry. \<not> is_commit target entry \<and> parked orig target (snd (snd entry))) (drop n (fs_log w))"
    by (simp_all add: backed_up_def log_ok_def)
  have "list_all (\<lambda>entry. \<not> is_commit target entry \<and> parked orig target (snd (snd entry))) xs \<Longrightarrow>
        list_all (parked orig target) (before_commit target (xs @ [(Remove (target @ ''.bak''), ok, fsys)]))" for xs
    by (induction xs) (simp_all add: before_commit_def is_commit_def)
  from this [OF a] n l show ?thesis by (simp add: parked_before_commit_def)
qed

lemma snd_http_Get_intact: "intact orig target n w \<Longrightarrow> intact orig target n (snd (http_Get E url w))"
  using http_Get_intact [of E url w "fst (http_Get E url w)" "snd (http_Get E url w)"] by simp

lemma snd_http_Get_syscalls [simp]: "syscalls (snd (http_Get E url w)) = syscalls w"
  by (simp add: http_Get_def)

lemma snd_os_Stat_intact: "intact orig target n w \<Longrightarrow> intact orig target n (snd (os_Stat E name w))"
  using os_Stat_intact [of E name w "fst (os_Stat E name w)" "snd (os_Stat E name w)"] by simp

lemma snd_os_Stat_syscalls [simp]: "syscalls (snd (os_Stat E name w)) = Suc (syscalls w)"
  by (simp add: os_Stat_def tick_def split: option.splits)

lemma snd_os_OpenFile_backed_up:
  "backed_up orig target n w \<Longrightarrow> backed_up orig target n (snd (os_OpenFile E target mode w))"
  using os_OpenFile_backed_up [of E target mode w "fst (os_OpenFile E target mode w)"] by simp

lemma snd_file_Write_backed_up:
  "backed_up orig target n w \<Longrightarrow> backed_up orig target n (snd (file_Write E target data w))"
  using file_Write_backed_up [of E target data w "fst (file_Write E target data w)"] by simp

lemma snd_io_Copy_file_backed_up:
  assumes "backed_up orig target n w"
  shows "backed_up orig target n (snd (io_Copy_file E target r w))"
proof -
  obtain data ok
    where "snd (io_Copy_file E target r w) = record_op (Write target) ok (tick (set_content target data w))"
    using io_Copy_file_world by blast
  with write_backed_up [OF assms] show ?thesis by simp
qed

lemma snd_os_Open_backed_up:
  "backed_up orig target n w \<Longrightarrow> backed_up orig target n (snd (os_Open E name w))"
  using os_Open_backed_up [of E name w "fst (os_Open E name w)"] by simp

lemma snd_io_Copy_hash_backed_up:
  "backed_up orig target n w \<Longrightarrow> backed_up orig target n (snd (io_Copy_hash E name w))"
  using io_Copy_hash_backed_up [of E name w "fst (io_Copy_hash E name w)"] by simp

lemma snd_os_Chmod_backed_up:
  "backed_up orig target n w \<Longrightarrow> backed_up orig target n (snd (os_Chmod E target mode w))"
  using os_Chmod_backed_up [of E target mode w "fst (os_Chmod E target mode w)"] by simp

lemma untgzFile_world:
  "snd (untgzFile E name w) = snd (os_Open E name w)
   \<or> snd (untgzFile E name w) = snd (os_Create E name (snd (os_Remove E name (snd (os_Open E name w)))))
   \<or> (\<exists>data. snd (untgzFile E name w)
         = snd (file_Write E name data (snd (os_Create E name (snd (os_Remove E name (snd (os_Open E name w))))))))"
  unfolding untgzFile_def Let_def
  by (auto split: prod.splits option.splits sum.splits)

lemma snd_untgzFile_backed_up:
  assumes "backed_up orig target n w"
  shows "backed_up orig target n (snd (untgzFile E target w))"
proof -
  let ?w1 = "snd (os_Open E target w)"
  let ?w3 = "snd (os_Create E target (snd (os_Remove E target ?w1)))"
  have 1: "backed_up orig target n ?w1" using assms by (rule snd_os_Open_backed_up)
  have 3: "backed_up orig target n ?w3"
    unfolding os_Create_def
    by (rule snd_os_OpenFile_backed_up [OF os_Remove_target_backed_up [OF 1]])
  have 4: "backed_up orig target n (snd (file_Write E target data ?w3))" for data
    by (rule snd_file_Write_backed_up [OF 3])
  from untgzFile_world [of E target w] 1 3 4 show ?thesis by auto
qed

text \<open>
  In every environment in which the rename of the target to the backup, the call with index
  \<open>syscalls w + 1\<close>, does not fail, the original is parked in every state of the attempt before
  the commit, whichever other calls and requests fail.
\<close>

lemma downloadUpdate_parked:
  assumes exe: "exe_answer E = Inr exe" "symlinks_answer E exe = Inr target"
    and orig: "fs w target = Some orig"
    and ok: "fault E (Suc (syscalls w)) = None"
  shows "parked_before_commit orig target (length (fs_log w))
           (snd (downloadUpdate E downloadURL checksumURL version w))"
proof -
  let ?n = "length (fs_log w)"
  let ?w1 = "snd (http_Get E downloadURL w)"
  let ?w2 = "snd (http_Get E checksumURL ?w1)"
  let ?w3 = "snd (os_Stat E target ?w2)"
  let ?w4 = "snd (os_Rename E target (target @ ''.bak'') ?w3)"
  have i0: "intact orig target ?n w" using orig by (rule intact_start)
  have i1: "intact orig target ?n ?w1" using i0 by (rule snd_http_Get_intact)
  have i2: "intact orig target ?n ?w2" using i1 by (rule snd_http_Get_intact)
  have i3: "intact orig target ?n ?w3" using i2 by (rule snd_os_Stat_intact)
  have f: "fault E (syscalls ?w3) = None" using ok by simp
  have b4: "backed_up orig target ?n ?w4" using i3 f by (rule backup_rename)
  note early = log_ok_parked [OF intact_log_ok [OF i1]] log_ok_parked [OF intact_log_ok [OF i2]]
    log_ok_parked [OF intact_log_ok [OF i3]]
  have tail: "backed_up orig target ?n w' \<Longrightarrow>
      parked_before_commit orig target ?n w'
      \<and> parked_before_commit orig target ?n (snd (os_Rename E (target @ ''.bak'') target w'))" for w'
    by (simp add: log_ok_parked backed_up_log_ok restore_log_ok)
  have e: "os_Executable E = Inr exe" "filepath_EvalSymlinks E exe = Inr target"
    using exe by (simp_all add: os_Executable_def filepath_EvalSymlinks_def sys_def)
  show ?thesis
    unfolding downloadUpdate_def Let_def
    using early b4
    by (auto simp: e tail commit_parked snd_os_OpenFile_backed_up snd_io_Copy_file_backed_up snd_os_Open_backed_up
          snd_io_Copy_hash_backed_up snd_untgzFile_backed_up snd_os_Chmod_backed_up
        split: prod.splits sum.splits option.splits copied.splits dest!: snd_of_result)
qed

text \<open>
  The last file-system call of an attempt that has made any is the rename of the backup over
  the target, the deletion of the backup, or the write of the artifact; and the write only when
  the attempt stops after its fifth call, the \<^verbatim>\<open>os.Open\<close> of the written target, or when the
  copy of the artifact ends in a panic.
\<close>

lemma os_Rename_ends: "ends_with (Rename a b) (snd (os_Rename E a b w))"
  by (auto simp: ends_with_def os_Rename_def record_op_def tick_def split: option.splits)

lemma commit_ends:
  "ends_with (Remove b) (snd (syscall_Exec E t (fmt_Print s (snd (os_Remove E b w)))))"
  by (auto simp: ends_with_def syscall_Exec_def fmt_Print_def os_Remove_def record_op_def tick_def
      split: option.splits)

lemma reopen_ends: "ends_with (Write t) (snd (os_Open E t (snd (io_Copy_file E t r w))))"
proof -
  obtain data ok
    where "snd (io_Copy_file E t r w) = record_op (Write t) ok (tick (set_content t data w))"
    using io_Copy_file_world by blast
  then show ?thesis
    by (auto simp: ends_with_def os_Open_def record_op_def tick_def split: option.splits)
qed

lemma fs_log_http_Get [simp]: "fs_log (snd (http_Get E url w)) = fs_log w"
  by (simp add: http_Get_def)

lemma fs_log_os_Stat [simp]: "fs_log (snd (os_Stat E name w)) = fs_log w"
  by (simp add: os_Stat_def tick_def split: option.splits)

lemma syscalls_os_Rename [simp]: "syscalls (snd (os_Rename E a b w)) = Suc (syscalls w)"
  by (simp add: os_Rename_def record_op_def tick_def split: option.splits)

lemma syscalls_os_OpenFile [simp]: "syscalls (snd (os_OpenFile E name mode w)) = Suc (syscalls w)"
  by (simp add: os_OpenFile_def record_op_def tick_def split: option.splits)

lemma syscalls_io_Copy_file [simp]: "syscalls (snd (io_Copy_file E name r w)) = Suc (syscalls w)"
proof -
  obtain data ok
    where "snd (io_Copy_file E name r w) = record_op (Write name) ok (tick (set_content name data w))"
    using io_Copy_file_world by blast
  then show ?thesis
    by (simp add: set_content_def record_op_def tick_def split: option.splits)
qed

lemma syscalls_os_Open [simp]: "syscalls (snd (os_Open E name w)) = Suc (syscalls w)"
  by (simp add: os_Open_def tick_def split: option.splits)

lemma downloadUpdate_last_call:
  assumes exe: "exe_answer E = Inr exe" "symlinks_answer E exe = Inr target"
  shows "fs_log (snd (downloadUpdate E downloadURL checksumURL version w)) = fs_log w
   \<or> ends_with (Rename (target @ ''.bak'') target) (snd (downloadUpdate E downloadURL checksumURL version w))
   \<or> ends_with (Remove (target @ ''.bak'')) (snd (downloadUpdate E downloadURL checksumURL version w))
   \<or> ends_with (Write target) (snd (downloadUpdate E downloadURL checksumURL version w))
      \<and> syscalls (snd (downloadUpdate E downloadURL checksumURL version w)) = syscalls w + 5
   \<or> fst (downloadUpdate E downloadURL checksumURL version w) = Panic"
proof -
  have e: "os_Executable E = Inr exe" "filepath_EvalSymlinks E exe = Inr target"
    using exe by (simp_all add: os_Executable_def filepath_EvalSymlinks_def sys_def)
  show ?thesis
    unfolding downloadUpdate_def Let_def
    by (auto simp: e os_Rename_ends commit_ends reopen_ends
        split: prod.splits sum.splits option.splits copied.splits dest!: snd_of_result)
qed

text \<open>
  C2 at a failing input: the call with index 1, the rename of the target to the backup,
  fails, and the published checksum does not match. The result of the rename is discarded,
  \<^verbatim>\<open>os.OpenFile\<close> empties the target, and from then on the original binary is neither at the
  target path nor at the backup path; the attempt ends, before any commit, with the
  checksum-mismatch error and the downloaded bytes at the target path. By
  \<open>downloadUpdate_parked\<close> a failure of that rename is the only way to lose the original.
\<close>

theorem failed_backup_rename_loses_original:
  "fs world0 ''/usr/bin/tool'' = Some old_binary
   \<and> fst (AutoUpdate (linux_amd64 (server ''v1.1.0'' ''bad'') (fault_at 1)) (tool ''v1.0.0'') world0)
       = Return (Some (ChecksumMismatch ''v1.1.0''))
   \<and> map (\<lambda>entry. (fst entry, fst (snd entry)))
        (fs_log (snd (AutoUpdate (linux_amd64 (server ''v1.1.0'' ''bad'') (fault_at 1)) (tool ''v1.0.0'') world0)))
       = [(Rename ''/usr/bin/tool'' ''/usr/bin/tool.bak'', False), (OpenFile ''/usr/bin/tool'', True),
          (Write ''/usr/bin/tool'', True), (Rename ''/usr/bin/tool.bak'' ''/usr/bin/tool'', False)]
   \<and> \<not> list_all (parked old_binary ''/usr/bin/tool'')
         (before_commit ''/usr/bin/tool''
            (fs_log (snd (AutoUpdate (linux_amd64 (server ''v1.1.0'' ''bad'') (fault_at 1)) (tool ''v1.0.0'') world0))))
   \<and> fs (snd (AutoUpdate (linux_amd64 (server ''v1.1.0'' ''bad'') (fault_at 1)) (tool ''v1.0.0'') world0))
        ''/usr/bin/tool'' = Some \<lparr>content = ''NEW'', perm = 493\<rparr>
   \<and> fs (snd (AutoUpdate (linux_amd64 (server ''v1.1.0'' ''bad'') (fault_at 1)) (tool ''v1.0.0'') world0))
        ''/usr/bin/tool.bak'' = None"
  by code_simp

text \<open>
  C4 at a failing input: the call with index 4, the \<^verbatim>\<open>os.Open\<close> of the written target for
  the digest, fails after the backup has been made. The error is returned with no rename of
  the backup over the target: the last file-system call is the write, the target holds the
  downloaded bytes and the original stays at the backup path. By \<open>downloadUpdate_last_call\<close>
  this is the only return between backup and commit that is not preceded by that rename.
\<close>

theorem failed_reopen_skips_restore:
  "fs world0 ''/usr/bin/tool'' = Some old_binary
   \<and> fst (AutoUpdate (linux_amd64 (server ''v1.1.0'' md5_hex_NEW) (fault_at 4)) (tool ''v1.0.0'') world0)
       = Return (Some (SysError ''permission denied''))
   \<and> map (\<lambda>entry. (fst entry, fst (snd entry)))
        (fs_log (snd (AutoUpdate (linux_amd64 (server ''v1.1.0'' md5_hex_NEW) (fault_at 4)) (tool ''v1.0.0'') world0)))
       = [(Rename ''/usr/bin/tool'' ''/usr/bin/tool.bak'', True), (OpenFile ''/usr/bin/tool'', True),
          (Write ''/usr/bin/tool'', True)]
   \<and> fs (snd (AutoUpdate (linux_amd64 (server ''v1.1.0'' md5_hex_NEW) (fault_at 4)) (tool ''v1.0.0'') world0))
        ''/usr/bin/tool'' = Some \<lparr>content = ''NEW'', perm = 493\<rparr>
   \<and> fs (snd (AutoUpdate (linux_amd64 (server ''v1.1.0'' md5_hex_NEW) (fault_at 4)) (tool ''v1.0.0'') world0))
        ''/usr/bin/tool.bak'' = Some old_binary"
  by code_simp

end
